theory Spec2Isabelle
  imports Main
begin

section \<open>Go run-time notions used by processor.go\<close>

text \<open>
  A Go call either returns or panics. \<open>Panic\<close> carries a short form of the run-time
  message; Go \<open>error\<close> results are ordinary returned values (\<open>goerror option\<close>,
  \<open>None\<close> for \<open>nil\<close>).
\<close>

datatype 'a outcome = Panic string | Return 'a

fun bind :: "'a outcome \<Rightarrow> ('a \<Rightarrow> 'b outcome) \<Rightarrow> 'b outcome" where
  "bind (Panic s) k = Panic s"
| "bind (Return x) k = k x"

datatype goerror = errors_New string

fun Error :: "goerror \<Rightarrow> string" where
  "Error (errors_New m) = m"

text \<open>\<open>xs[i]\<close> on a Go slice: a run-time panic when \<open>i\<close> is out of range.\<close>

definition index :: "'a list \<Rightarrow> nat \<Rightarrow> 'a outcome" where
  "index xs i = (if i < length xs then Return (xs ! i) else Panic ''index out of range'')"

text \<open>
  \<open>strings.Split(s, sep)\<close> for a one-character separator: the pieces of \<open>s\<close>
  between the separators, one more piece than there are separators.
\<close>

fun strings_Split :: "string \<Rightarrow> char \<Rightarrow> string list" where
  "strings_Split [] c = [[]]"
| "strings_Split (x # xs) c =
     (if x = c then [] # strings_Split xs c
      else (case strings_Split xs c of [] \<Rightarrow> [[x]] | w # ws \<Rightarrow> (x # w) # ws))"

subsection \<open>reflect.Type\<close>

text \<open>
  \<open>reflect.Kind\<close>, in the order of the Go declaration.
\<close>

datatype kind =
    reflect_Invalid | reflect_Bool | reflect_Int | reflect_Int8 | reflect_Int16
  | reflect_Int32 | reflect_Int64 | reflect_Uint | reflect_Uint8 | reflect_Uint16
  | reflect_Uint32 | reflect_Uint64 | reflect_Uintptr | reflect_Float32 | reflect_Float64
  | reflect_Complex64 | reflect_Complex128 | reflect_Array | reflect_Chan | reflect_Func
  | reflect_Interface | reflect_Map | reflect_Ptr | reflect_Slice | reflect_String
  | reflect_Struct | reflect_UnsafePointer

text \<open>The kinds of types that have no element type, parameters or fields.\<close>

datatype scalar =
    SBool | SInt | SInt8 | SInt16 | SInt32 | SInt64
  | SUint | SUint8 | SUint16 | SUint32 | SUint64 | SUintptr
  | SFloat32 | SFloat64 | SComplex64 | SComplex128 | SString | SUnsafePointer

fun scalar_kind :: "scalar \<Rightarrow> kind" where
  "scalar_kind SBool = reflect_Bool" | "scalar_kind SInt = reflect_Int"
| "scalar_kind SInt8 = reflect_Int8" | "scalar_kind SInt16 = reflect_Int16"
| "scalar_kind SInt32 = reflect_Int32" | "scalar_kind SInt64 = reflect_Int64"
| "scalar_kind SUint = reflect_Uint" | "scalar_kind SUint8 = reflect_Uint8"
| "scalar_kind SUint16 = reflect_Uint16"
| "scalar_kind SUint32 = reflect_Uint32" | "scalar_kind SUint64 = reflect_Uint64"
| "scalar_kind SUintptr = reflect_Uintptr" | "scalar_kind SFloat32 = reflect_Float32"
| "scalar_kind SFloat64 = reflect_Float64" | "scalar_kind SComplex64 = reflect_Complex64"
| "scalar_kind SComplex128 = reflect_Complex128" | "scalar_kind SString = reflect_String"
| "scalar_kind SUnsafePointer = reflect_UnsafePointer"

text \<open>\<open>reflect.ChanDir\<close>: \<open>chan T\<close> has \<open>BothDir\<close>, \<open><-chan T\<close> has \<open>RecvDir\<close> and
  \<open>chan<- T\<close> has \<open>SendDir\<close>.\<close>

datatype chandir = RecvDir | SendDir | BothDir

text \<open>
  A type descriptor as \<open>reflect\<close> shows it. Every constructor carries what
  \<open>Type.String()\<close> prints and whether \<open>Type.Implements(errType)\<close> holds (both
  depend on the declaration of the type, which the descriptor does not otherwise record);
  the remaining arguments are the element type (for a channel after its direction), the
  parameter and result types, or the fields (name and type) of the type.
  For a defined struct type \<open>String()\<close> is \<open>pkg.Name\<close>; for a struct type
  literal it is the literal, \<open>struct {}\<close> or \<open>struct { A int; B int }\<close>.
\<close>

datatype rtype =
    ScalarT scalar string bool
  | InterfaceT string bool
  | ArrayT string bool rtype
  | ChanT string bool chandir rtype
  | MapT string bool rtype
  | PtrT string bool rtype
  | SliceT string bool rtype
  | FuncT string bool "rtype list" "rtype list"
  | StructT string bool "(string \<times> rtype) list"

fun Kind :: "rtype \<Rightarrow> kind" where
  "Kind (ScalarT s _ _) = scalar_kind s"
| "Kind (InterfaceT _ _) = reflect_Interface"
| "Kind (ArrayT _ _ _) = reflect_Array"
| "Kind (ChanT _ _ _ _) = reflect_Chan"
| "Kind (MapT _ _ _) = reflect_Map"
| "Kind (PtrT _ _ _) = reflect_Ptr"
| "Kind (SliceT _ _ _) = reflect_Slice"
| "Kind (FuncT _ _ _ _) = reflect_Func"
| "Kind (StructT _ _ _) = reflect_Struct"

fun String_of :: "rtype \<Rightarrow> string" where
  "String_of (ScalarT _ n _) = n"
| "String_of (InterfaceT n _) = n"
| "String_of (ArrayT n _ _) = n"
| "String_of (ChanT n _ _ _) = n"
| "String_of (MapT n _ _) = n"
| "String_of (PtrT n _ _) = n"
| "String_of (SliceT n _ _) = n"
| "String_of (FuncT n _ _ _) = n"
| "String_of (StructT n _ _) = n"

text \<open>\<open>t.Implements(errType)\<close>, \<open>errType\<close> being the type \<open>error\<close>.\<close>

fun Implements_errType :: "rtype \<Rightarrow> bool" where
  "Implements_errType (ScalarT _ _ b) = b"
| "Implements_errType (InterfaceT _ b) = b"
| "Implements_errType (ArrayT _ b _) = b"
| "Implements_errType (ChanT _ b _ _) = b"
| "Implements_errType (MapT _ b _) = b"
| "Implements_errType (PtrT _ b _) = b"
| "Implements_errType (SliceT _ b _) = b"
| "Implements_errType (FuncT _ b _ _) = b"
| "Implements_errType (StructT _ b _) = b"

text \<open>The methods of \<open>reflect.Type\<close> that panic on a type of the wrong kind.\<close>

fun Elem :: "rtype \<Rightarrow> rtype outcome" where
  "Elem (ArrayT _ _ e) = Return e"
| "Elem (ChanT _ _ _ e) = Return e"
| "Elem (MapT _ _ e) = Return e"
| "Elem (PtrT _ _ e) = Return e"
| "Elem (SliceT _ _ e) = Return e"
| "Elem _ = Panic ''reflect: Elem of invalid type''"

fun NumIn :: "rtype \<Rightarrow> nat outcome" where
  "NumIn (FuncT _ _ is _) = Return (length is)"
| "NumIn _ = Panic ''reflect: NumIn of non-func type''"

fun NumOut :: "rtype \<Rightarrow> nat outcome" where
  "NumOut (FuncT _ _ _ os) = Return (length os)"
| "NumOut _ = Panic ''reflect: NumOut of non-func type''"

fun In :: "rtype \<Rightarrow> nat \<Rightarrow> rtype outcome" where
  "In (FuncT _ _ is _) i =
     (if i < length is then Return (is ! i) else Panic ''reflect: Func index out of bounds'')"
| "In _ i = Panic ''reflect: In of non-func type''"

fun Out :: "rtype \<Rightarrow> nat \<Rightarrow> rtype outcome" where
  "Out (FuncT _ _ _ os) i =
     (if i < length os then Return (os ! i) else Panic ''reflect: Func index out of bounds'')"
| "Out _ i = Panic ''reflect: Out of non-func type''"

fun NumField :: "rtype \<Rightarrow> nat outcome" where
  "NumField (StructT _ _ fs) = Return (length fs)"
| "NumField _ = Panic ''reflect: NumField of non-struct type''"

fun Field :: "rtype \<Rightarrow> nat \<Rightarrow> (string \<times> rtype) outcome" where
  "Field (StructT _ _ fs) i =
     (if i < length fs then Return (fs ! i) else Panic ''reflect: Field index out of bounds'')"
| "Field _ i = Panic ''reflect: Field of non-struct type''"

subsection \<open>Values\<close>

text \<open>
  The values a handler returns, as \<open>reflect.Value.Interface()\<close> delivers them: the nil
  interface; a pointer to a message; a non-nil value whose type implements \<open>error\<close>; a
  channel, with its dynamic type and the number that identifies it (\<open>None\<close> for the nil
  channel); or any other value, a nil pointer of a pointer type among them. The values of
  the last three kinds are those whose type does not implement \<open>error\<close>.
\<close>

datatype 'm gvalue =
    VNil
  | VPtr 'm
  | VErr goerror
  | VChan rtype "nat option"
  | VOther

text \<open>The type \<open>chan bool\<close>.\<close>

definition chan_bool :: rtype where
  "chan_bool = ChanT ''chan bool'' False BothDir (ScalarT SBool ''bool'' False)"

text \<open>
  \<open>delivers t v\<close>: a result of static type \<open>t\<close> can have the value \<open>v\<close>. The nil
  interface comes from a result of interface type only; a value of another type has the
  static type as its dynamic type.
\<close>

fun delivers :: "rtype \<Rightarrow> 'm gvalue \<Rightarrow> bool" where
  "delivers t VNil = (Kind t = reflect_Interface)"
| "delivers t (VPtr m) =
     ((Kind t = reflect_Ptr \<or> Kind t = reflect_Interface) \<and> \<not> Implements_errType t)"
| "delivers t (VErr e) = (Implements_errType t \<or> Kind t = reflect_Interface)"
| "delivers t (VChan ct c) =
     (Kind ct = reflect_Chan \<and> \<not> Implements_errType ct
      \<and> (t = ct \<or> (Kind t = reflect_Interface \<and> \<not> Implements_errType t)))"
| "delivers t VOther = (Kind t \<noteq> reflect_Chan \<and> \<not> Implements_errType t)"

text \<open>
  A Go value with a dynamic type, as an \<open>interface{}\<close> holds it: the type, and what the
  function does when it is called with one argument (panic, or return its results).
  An argument \<open>f interface{}\<close> is a \<open>govalue option\<close>, \<open>None\<close> being the nil interface.
\<close>

record 'm govalue =
  TypeOf :: rtype
  Call :: "'m \<Rightarrow> 'm gvalue list outcome"

text \<open>\<open>reflect.TypeOf\<close>: the nil \<open>Type\<close> for the nil interface.\<close>

definition reflect_TypeOf :: "'m govalue option \<Rightarrow> rtype option" where
  "reflect_TypeOf f = map_option TypeOf f"

text \<open>
  A method call on the \<open>Type\<close> that \<open>reflect.TypeOf\<close> returned: a nil pointer
  dereference when it is nil.
\<close>

fun non_nil :: "rtype option \<Rightarrow> rtype outcome" where
  "non_nil None = Panic ''invalid memory address or nil pointer dereference''"
| "non_nil (Some t) = Return t"

text \<open>
  \<open>reflect.Value.Call\<close> with one argument of type pointer to \<open>at\<close>: it panics on a value
  that is not a function of one parameter to which the argument can be passed; the
  results it delivers are as many as the function type has results, each of its type
  (a function made by \<open>reflect.MakeFunc\<close> that returns anything else makes it panic).
\<close>

definition reflect_Call :: "'m govalue \<Rightarrow> rtype \<Rightarrow> 'm \<Rightarrow> 'm gvalue list outcome" where
  "reflect_Call v at arg =
     (case TypeOf v of
        FuncT _ _ ps rs \<Rightarrow>
          (case ps of
             [PtrT _ _ pt] \<Rightarrow>
               if pt \<noteq> at then Panic ''reflect: Call using wrong argument type''
               else bind (Call v arg) (\<lambda>ret.
                 if length ret = length rs \<and> list_all2 delivers rs ret then Return ret
                 else Panic ''reflect: wrong return from function created by MakeFunc'')
           | [_] \<Rightarrow> Panic ''reflect: Call using wrong argument type''
           | _ \<Rightarrow> Panic ''reflect: Call with wrong number of input arguments'')
      | _ \<Rightarrow> Panic ''reflect: call of reflect.Value.Call on non-function Value'')"

section \<open>processor.go\<close>

record 'm serviceHandler =
  handler :: "'m govalue option"
  msgType :: rtype
  streaming :: bool

datatype kindGET = invalidGET | emptyGET | intGET | sliceGET

text \<open>
  The closure \<open>h\<close> that \<open>RegisterRESTHandler\<close> builds captures \<open>k\<close>,
  \<open>fieldNameGET\<close>, \<open>namespace\<close>, \<open>resource\<close>, \<open>sh\<close> and \<open>f\<close>.
\<close>

record 'm restClosure =
  h_k :: kindGET
  h_fieldNameGET :: string
  h_namespace :: string
  h_resource :: string
  h_sh :: "'m serviceHandler"
  h_f :: "'m govalue option"

text \<open>
  \<open>ServiceProcessor\<close>: the handlers map, and of the embedded \<open>Context\<close> the patterns
  registered on the HTTP multiplexer (\<open>p.server.WebSocket.mux\<close>), the only part of it
  that processor.go changes.
\<close>

record 'm ServiceProcessor =
  handlers :: "string \<rightharpoonup> 'm serviceHandler"
  mux :: "(string \<times> 'm restClosure) list"

definition NewServiceProcessor :: "'m ServiceProcessor" where
  "NewServiceProcessor = \<lparr>handlers = Map.empty, mux = []\<rparr>"

definition handlerInputCheck :: "'m govalue option \<Rightarrow> goerror option outcome" where
  "handlerInputCheck f =
     bind (non_nil (reflect_TypeOf f)) (\<lambda>ft.
      if Kind ft \<noteq> reflect_Func then Return (Some (errors_New ''Input is not a function''))
      else bind (NumIn ft) (\<lambda>n.
        if n \<noteq> 1 then Return (Some (errors_New ''Need one argument: *struct''))
        else bind (In ft 0) (\<lambda>cr.
          if Kind cr \<noteq> reflect_Ptr
          then Return (Some (errors_New ''Argument must be a *pointer* to a struct''))
          else bind (Elem cr) (\<lambda>ce.
            if Kind ce \<noteq> reflect_Struct
            then Return (Some (errors_New ''Argument must be a pointer to *struct*''))
            else Return None))))"

definition createServiceHandler ::
  "'m govalue option \<Rightarrow> (goerror + string \<times> 'm serviceHandler) outcome" where
  "createServiceHandler f =
     bind (non_nil (reflect_TypeOf f)) (\<lambda>ft.
      bind (NumOut ft) (\<lambda>n.
        if n \<noteq> 2
        then Return (Inl (errors_New ''Need 2 return values: network.Body and error''))
        else bind (Out ft 0) (\<lambda>ret.
          bind (if Kind ret \<noteq> reflect_Interface
                then (if Kind ret \<noteq> reflect_Ptr
                      then Return (Some (errors_New
                        ''1st return value must be a *pointer* to a struct or an interface''))
                      else bind (Elem ret) (\<lambda>re.
                        if Kind re \<noteq> reflect_Struct
                        then Return (Some (errors_New
                          ''1st return value must be a pointer to a *struct* or an interface''))
                        else Return None))
                else Return None) (\<lambda>early.
            case early of
              Some e \<Rightarrow> Return (Inl e)
            | None \<Rightarrow>
                bind (Out ft 1) (\<lambda>o1.
                  if \<not> Implements_errType o1
                  then Return (Inl (errors_New
                    (''2nd return value has to implement error, but is: '' @ String_of o1)))
                  else bind (In ft 0) (\<lambda>cr.
                    bind (Elem cr) (\<lambda>ce.
                      bind (index (strings_Split (String_of ce) (CHR ''.'')) 1) (\<lambda>pm.
                        Return (Inr (pm,
                          \<lparr>handler = f, msgType = ce, streaming = False\<rparr>))))))))))"

text \<open>
  The registration operations return the processor as the call leaves it, with the
  outcome of the call.
\<close>

definition RegisterHandler ::
  "'m ServiceProcessor \<Rightarrow> 'm govalue option \<Rightarrow> 'm ServiceProcessor \<times> goerror option outcome" where
  "RegisterHandler p f =
     (case handlerInputCheck f of
        Panic s \<Rightarrow> (p, Panic s)
      | Return (Some err) \<Rightarrow> (p, Return (Some err))
      | Return None \<Rightarrow>
          (case createServiceHandler f of
             Panic s \<Rightarrow> (p, Panic s)
           | Return (Inl err) \<Rightarrow> (p, Return (Some err))
           | Return (Inr (pm, sh)) \<Rightarrow>
               (p\<lparr>handlers := (handlers p)(pm \<mapsto> sh)\<rparr>, Return None)))"

definition RegisterStreamingHandler ::
  "'m ServiceProcessor \<Rightarrow> 'm govalue option \<Rightarrow> 'm ServiceProcessor \<times> goerror option outcome" where
  "RegisterStreamingHandler p f =
     (case handlerInputCheck f of
        Panic s \<Rightarrow> (p, Panic s)
      | Return (Some err) \<Rightarrow> (p, Return (Some err))
      | Return None \<Rightarrow>
          (case
             bind (non_nil (reflect_TypeOf f)) (\<lambda>ft.
             bind (NumOut ft) (\<lambda>n.
               if n \<noteq> 3
               then Return (Inl (errors_New
                 ''Need 3 return values: chan interface{}, chan bool and error''))
               else bind (Out ft 0) (\<lambda>ret0.
                 if Kind ret0 \<noteq> reflect_Chan
                 then Return (Inl (errors_New ''1st return value must be a channel''))
                 else bind (Elem ret0) (\<lambda>e0.
                   bind (if Kind e0 \<noteq> reflect_Interface
                         then (if Kind e0 \<noteq> reflect_Ptr
                               then Return (Some (errors_New
                                 ''1st return value must be a channel of a *pointer* to a struct''))
                               else bind (Elem e0) (\<lambda>e00.
                                 if Kind e00 \<noteq> reflect_Struct
                                 then Return (Some (errors_New
                                   ''1st return value must be a channel of a pointer to a *struct*''))
                                 else Return None))
                         else Return None) (\<lambda>early.
                     case early of
                       Some e \<Rightarrow> Return (Inl e)
                     | None \<Rightarrow>
                         bind (Out ft 1) (\<lambda>ret1.
                           if Kind ret1 \<noteq> reflect_Chan
                           then Return (Inl (errors_New ''2nd return value must be a channel''))
                           else bind (Elem ret1) (\<lambda>e1.
                             if Kind e1 \<noteq> reflect_Bool
                             then Return (Inl (errors_New
                               ''2nd return value must be a boolean channel''))
                             else bind (Out ft 2) (\<lambda>o2.
                               if \<not> Implements_errType o2
                               then Return (Inl (errors_New
                                 (''3rd return value has to implement error, but is: ''
                                    @ String_of o2)))
                               else bind (In ft 0) (\<lambda>cr.
                                 bind (Elem cr) (\<lambda>ce.
                                   bind (index (strings_Split (String_of ce) (CHR ''.'')) 1)
                                     (\<lambda>pm. Return (Inr (pm,
                                        \<lparr>handler = f, msgType = ce,
                                         streaming = True\<rparr>)))))))))))))
           of
             Panic s \<Rightarrow> (p, Panic s)
           | Return (Inl err) \<Rightarrow> (p, Return (Some err))
           | Return (Inr (pm, sh)) \<Rightarrow>
               (p\<lparr>handlers := (handlers p)(pm \<mapsto> sh)\<rparr>, Return None)))"

definition prepareHandlerGET ::
  "'m govalue option \<Rightarrow> (kindGET \<times> string \<times> goerror option) outcome" where
  "prepareHandlerGET f =
     bind (non_nil (reflect_TypeOf f)) (\<lambda>ft.
     bind (In ft 0) (\<lambda>i0.
       bind (Elem i0) (\<lambda>in0.
         if Kind in0 \<noteq> reflect_Struct
         then Return (invalidGET, [], Some (errors_New ''input argument must be a struct''))
         else bind (NumField in0) (\<lambda>nf.
           if nf = 0 then Return (emptyGET, [], None)
           else if nf = 1 then
             bind (Field in0 0) (\<lambda>fld.
               bind (if Kind (snd fld) = reflect_Slice
                     then bind (Elem (snd fld)) (\<lambda>fe. Return (Kind fe = reflect_Uint8))
                     else Return False) (\<lambda>byteSlice.
                 if byteSlice then Return (sliceGET, fst fld, None)
                 else if Kind (snd fld) = reflect_Int then Return (intGET, fst fld, None)
                 else Return (invalidGET, [],
                   Some (errors_New ''only byte slices and int are supported''))))
           else Return (invalidGET, [],
             Some (errors_New ''number of fields must be 0 or 1''))))))"

text \<open>\<open>fmt.Sprintf("%d", n)\<close> for a Go \<open>int\<close>.\<close>

fun nat_decimal :: "nat \<Rightarrow> string" where
  "nat_decimal n =
     (if n < 10 then [''0123456789'' ! n]
      else nat_decimal (n div 10) @ [''0123456789'' ! (n mod 10)])"

definition int_decimal :: "int \<Rightarrow> string" where
  "int_decimal i = (if i < 0 then CHR ''-'' # nat_decimal (nat (- i)) else nat_decimal (nat i))"

text \<open>
  \<open>ServeMux.HandleFunc\<close> panics when the pattern is already registered; the other
  refusals of the multiplexer are not modelled.
\<close>

definition HandleFunc ::
  "'m ServiceProcessor \<Rightarrow> string \<Rightarrow> 'm restClosure \<Rightarrow> 'm ServiceProcessor \<times> unit outcome" where
  "HandleFunc p pattern h =
     (if pattern \<in> fst ` set (mux p)
      then (p, Panic (''http: multiple registrations for '' @ pattern))
      else (p\<lparr>mux := mux p @ [(pattern, h)]\<rparr>, Return ()))"

definition RegisterRESTHandler ::
  "'m ServiceProcessor \<Rightarrow> 'm govalue option \<Rightarrow> int \<Rightarrow> string \<Rightarrow> string
     \<Rightarrow> 'm ServiceProcessor \<times> goerror option outcome" where
  "RegisterRESTHandler p f since namespace method =
     (if method \<noteq> ''GET'' \<and> method \<noteq> ''POST'' \<and> method \<noteq> ''PUT''
      then (p, Return (Some (errors_New ''invalid REST method'')))
      else if since < 3
      then (p, Return (Some (errors_New
        ''earliest supported API level must be greater or equal to 3'')))
      else
        (case createServiceHandler f of
           Panic s \<Rightarrow> (p, Panic s)
         | Return (Inl err) \<Rightarrow> (p, Return (Some err))
         | Return (Inr (resource, sh)) \<Rightarrow>
             (case (if method = ''GET'' then prepareHandlerGET f
                    else Return (invalidGET, [], None)) of
                Panic s \<Rightarrow> (p, Panic s)
              | Return (k, fieldNameGET, Some err) \<Rightarrow> (p, Return (Some err))
              | Return (k, fieldNameGET, None) \<Rightarrow>
                  (let h = \<lparr>h_k = k, h_fieldNameGET = fieldNameGET, h_namespace = namespace,
                            h_resource = resource, h_sh = sh, h_f = f\<rparr>;
                       finalSlash = (if k = intGET \<or> k = sliceGET then ''/'' else [])
                   in case HandleFunc p
                        (''/v'' @ int_decimal since @ ''/'' @ namespace @ ''/'' @ resource
                           @ finalSlash) h of
                        (p', Panic s) \<Rightarrow> (p', Panic s)
                      | (p', Return u) \<Rightarrow> (p', Return None)))))"

fun RegisterHandlers ::
  "'m ServiceProcessor \<Rightarrow> 'm govalue option list
     \<Rightarrow> 'm ServiceProcessor \<times> goerror option outcome" where
  "RegisterHandlers p [] = (p, Return None)"
| "RegisterHandlers p (pr # procs) =
     (case RegisterHandler p pr of
        (p', Return None) \<Rightarrow> RegisterHandlers p' procs
      | (p', r) \<Rightarrow> (p', r))"

fun RegisterStreamingHandlers ::
  "'m ServiceProcessor \<Rightarrow> 'm govalue option list
     \<Rightarrow> 'm ServiceProcessor \<times> goerror option outcome" where
  "RegisterStreamingHandlers p [] = (p, Return None)"
| "RegisterStreamingHandlers p (pr # procs) =
     (case RegisterStreamingHandler p pr of
        (p', Return None) \<Rightarrow> RegisterStreamingHandlers p' procs
      | (p', r) \<Rightarrow> (p', r))"

subsection \<open>Dispatch\<close>

text \<open>
  \<open>callInterfaceFunc\<close>. The input is the pointer that the caller allocated: its
  element type and its contents. \<open>Value.Set\<close> panics unless that type is the type of
  the handler's argument. On the nil interface the first method call on its nil
  \<open>Type\<close> panics.
\<close>

definition callInterfaceFunc ::
  "'m govalue option \<Rightarrow> rtype \<times> 'm \<Rightarrow> bool
     \<Rightarrow> ('m gvalue \<times> nat option \<times> goerror option) outcome" where
  "callInterfaceFunc hdl input strm =
     (case hdl of
        None \<Rightarrow> Panic ''invalid memory address or nil pointer dereference''
      | Some hv \<Rightarrow>
     bind (In (TypeOf hv) 0) (\<lambda>to.
       bind (Elem to) (\<lambda>te.
         if fst input \<noteq> te
         then Panic ''reflect.Set: value is not assignable to type''
         else bind (reflect_Call hv te (snd input)) (\<lambda>ret.
           if strm then
             bind (index ret 2) (\<lambda>ierr.
               case ierr of
                 VNil \<Rightarrow>
                   bind (index ret 0) (\<lambda>r0.
                     bind (index ret 1) (\<lambda>r1.
                       case r1 of
                         VChan ct c \<Rightarrow>
                           if ct = chan_bool then Return (r0, c, None)
                           else Panic ''interface conversion: interface {} is not chan bool''
                       | _ \<Rightarrow> Panic ''interface conversion: interface {} is not chan bool''))
               | VErr err \<Rightarrow> Return (VNil, None, Some err)
               | _ \<Rightarrow> Panic ''interface conversion: interface {} is not error'')
           else
             bind (index ret 1) (\<lambda>ierr.
               case ierr of
                 VNil \<Rightarrow> bind (index ret 0) (\<lambda>r0. Return (r0, None, None))
               | VErr err \<Rightarrow> Return (VNil, None, Some err)
               | _ \<Rightarrow> Panic ''interface conversion: interface {} is not error'')))))"

text \<open>
  A channel of byte slices as \<open>make(chan []byte, n)\<close> gives it: its capacity, the items
  in its buffer, oldest first, and whether it is closed. An item is a byte slice, \<open>None\<close>
  the nil slice.
\<close>

record bytes_chan =
  capacity :: nat
  buffer :: "string option list"
  closed :: bool

definition make_chan :: "nat \<Rightarrow> bytes_chan" where
  "make_chan n = \<lparr>capacity = n, buffer = [], closed = False\<rparr>"

text \<open>
  \<open>StreamingTunnel\<close>, with its \<open>out\<close> channel as it is when the dispatch returns.
\<close>

record StreamingTunnel =
  out :: bytes_chan
  close :: "nat option"

text \<open>
  What a dispatch does besides returning, in the order it does it: it logs an error,
  decodes a payload into a new value of a type, enters \<open>callInterfaceFunc\<close> with a
  handler and a message, encodes a reply, starts the goroutine that forwards the
  channel \<open>reply\<close> to the \<open>out\<close> channel of the tunnel it returns.
\<close>

datatype 'm effect =
    log_Error goerror
  | protobuf_Decode rtype string
  | call_handler "'m govalue option" 'm
  | protobuf_Encode "'m gvalue"
  | go_forward "'m gvalue"

text \<open>
  \<open>ProcessClientRequest\<close>. The protobuf library is not part of the repository:
  \<open>decode t buf\<close> stands for \<open>protobuf.DecodeWithConstructors\<close> into a new value of
  type \<open>t\<close>, \<open>encode v\<close> for \<open>protobuf.Encode\<close>, whose bytes may be the nil slice
  (\<open>None\<close>). The request argument is not used by the code and is left out.
\<close>

definition ProcessClientRequest ::
  "(rtype \<Rightarrow> string \<Rightarrow> goerror + 'm) \<Rightarrow> ('m gvalue \<Rightarrow> goerror + string option)
     \<Rightarrow> 'm ServiceProcessor \<Rightarrow> string \<Rightarrow> string
     \<Rightarrow> 'm effect list \<times> (string option \<times> StreamingTunnel option \<times> goerror option) outcome"
  where
  "ProcessClientRequest decode encode p path buf =
     (case handlers p path of
        None \<Rightarrow>
          (let err = errors_New (''The requested message hasn't been registered: '' @ path)
           in ([log_Error err], Return (None, None, Some err)))
      | Some mh \<Rightarrow>
          (case decode (msgType mh) buf of
             Inl err \<Rightarrow>
               ([protobuf_Decode (msgType mh) buf], Return (None, None, Some err))
           | Inr msg \<Rightarrow>
               (let done = [protobuf_Decode (msgType mh) buf, call_handler (handler mh) msg]
                in case callInterfaceFunc (handler mh) (msgType mh, msg) (streaming mh) of
                     Panic s \<Rightarrow> (done, Panic s)
                   | Return (reply, stopServiceChan, Some err) \<Rightarrow>
                       (done, Return (None, None, Some err))
                   | Return (reply, stopServiceChan, None) \<Rightarrow>
                       if streaming mh
                       then (done @ [go_forward reply],
                             Return (None,
                               Some \<lparr>out = make_chan 100, close = stopServiceChan\<rparr>, None))
                       else (case encode reply of
                               Inl err \<Rightarrow>
                                 (done @ [protobuf_Encode reply, log_Error err],
                                  Return (None, None, Some (errors_New [])))
                             | Inr bytes \<Rightarrow>
                                 (done @ [protobuf_Encode reply],
                                  Return (bytes, None, None))))))"

subsection \<open>The forwarding goroutine\<close>

text \<open>
  The goroutine that a streaming dispatch starts and the transport that reads the
  tunnel, as two actors over the two channels. \<open>source\<close> is the value \<open>reply\<close> that the
  goroutine captured, \<open>inChan\<close> the values that the handler sends on that channel before
  it closes it, those not yet received: a receive on the empty \<open>inChan\<close> is the receive
  that reports the closure. \<open>outChan\<close> is the \<open>out\<close> channel of the tunnel: a send blocks
  while its buffer is full. The goroutine is either in \<open>reflect.Select\<close>, or holds an
  encoded item to send, or has returned.
\<close>

datatype forwarder = Selecting | Sending "string option" | Returned

record 'm stream =
  source :: "'m gvalue"
  inChan :: "'m gvalue list"
  goroutine :: forwarder
  outChan :: bytes_chan
  received :: "string option list"

text \<open>
  \<open>reflect.Select\<close> on the single receive case of \<open>reflect.ValueOf(reply)\<close>: it panics on
  a value that is not a channel and on a send-only channel; on the zero \<open>Value\<close> of the
  nil interface and on a nil channel the case is never ready (\<open>False\<close>).
\<close>

fun Select_recv :: "'m gvalue \<Rightarrow> bool outcome" where
  "Select_recv VNil = Return False"
| "Select_recv (VChan (ChanT _ _ d _) c) =
     (if d = SendDir then Panic ''reflect.Select: RecvDir case using send-only channel''
      else Return (c \<noteq> None))"
| "Select_recv _ = Panic ''reflect: call of reflect.Select on non-chan Value''"

text \<open>
  One step of the goroutine: it panics, or it is blocked or has returned (\<open>None\<close>), or it
  moves on.
\<close>

definition forwarder_step ::
  "('m gvalue \<Rightarrow> goerror + string option) \<Rightarrow> 'm stream \<Rightarrow> 'm stream option outcome" where
  "forwarder_step encode s =
     (case goroutine s of
        Selecting \<Rightarrow>
          bind (Select_recv (source s)) (\<lambda>ready.
            if \<not> ready then Return None
            else (case inChan s of
               [] \<Rightarrow> Return (Some (s\<lparr>outChan := (outChan s)\<lparr>closed := True\<rparr>,
                                      goroutine := Returned\<rparr>))
             | v # vs \<Rightarrow>
                 (case encode v of
                    Inl err \<Rightarrow>
                      Return (Some (s\<lparr>inChan := vs, outChan := (outChan s)\<lparr>closed := True\<rparr>,
                                      goroutine := Returned\<rparr>))
                  | Inr buf \<Rightarrow> Return (Some (s\<lparr>inChan := vs, goroutine := Sending buf\<rparr>)))))
      | Sending buf \<Rightarrow>
          (if length (buffer (outChan s)) < capacity (outChan s)
           then Return (Some (s\<lparr>outChan := (outChan s)\<lparr>buffer := buffer (outChan s) @ [buf]\<rparr>,
                                goroutine := Selecting\<rparr>))
           else Return None)
      | Returned \<Rightarrow> Return None)"

text \<open>One receive of the transport; \<open>None\<close> when there is nothing to receive.\<close>

definition transport_step :: "'m stream \<Rightarrow> 'm stream option outcome" where
  "transport_step s =
     (case buffer (outChan s) of
        [] \<Rightarrow> Return None
      | b # bs \<Rightarrow> Return (Some (s\<lparr>outChan := (outChan s)\<lparr>buffer := bs\<rparr>,
                                 received := received s @ [b]\<rparr>)))"

datatype actor = Forwarder | Transport

definition actor_step ::
  "('m gvalue \<Rightarrow> goerror + string option) \<Rightarrow> actor \<Rightarrow> 'm stream \<Rightarrow> 'm stream option outcome"
  where
  "actor_step encode a s =
     (case a of Forwarder \<Rightarrow> forwarder_step encode s | Transport \<Rightarrow> transport_step s)"

text \<open>
  A schedule is the order in which the two actors take their steps; it runs as long as
  the actor whose turn it is can step, and ends in the panic of the goroutine if there
  is one.
\<close>

fun run ::
  "('m gvalue \<Rightarrow> goerror + string option) \<Rightarrow> actor list \<Rightarrow> 'm stream
     \<Rightarrow> 'm stream option outcome"
  where
  "run encode [] s = Return (Some s)"
| "run encode (a # as) s =
     (case actor_step encode a s of
        Panic m \<Rightarrow> Panic m
      | Return None \<Rightarrow> Return None
      | Return (Some s') \<Rightarrow> run encode as s')"

text \<open>
  The stream that a dispatch has started when it returns, \<open>vs\<close> being the values that
  the handler sends on its channel before it closes it: the goroutine of the dispatch's
  \<open>go\<close> statement, about to select on \<open>reply\<close>, and the \<open>out\<close> channel of the tunnel that
  the dispatch returns. \<open>None\<close> for a dispatch that started no goroutine or returned no
  tunnel.
\<close>

fun forwarded :: "'m effect list \<Rightarrow> 'm gvalue option" where
  "forwarded [] = None"
| "forwarded (go_forward reply # es) = Some reply"
| "forwarded (e # es) = forwarded es"

definition started ::
  "'m effect list \<times> (string option \<times> StreamingTunnel option \<times> goerror option) outcome
     \<Rightarrow> 'm gvalue list \<Rightarrow> 'm stream option" where
  "started dispatch vs =
     (case dispatch of
        (effects, Return (bytes, Some tunnel, err)) \<Rightarrow>
          (case forwarded effects of
             Some reply \<Rightarrow>
               Some \<lparr>source = reply, inChan = vs, goroutine = Selecting,
                     outChan = out tunnel, received = []\<rparr>
           | None \<Rightarrow> None)
      | _ \<Rightarrow> None)"

subsection \<open>The REST closure\<close>

text \<open>The fields of \<open>http.Request\<close> that \<open>h\<close> reads.\<close>

record Request =
  Method :: string
  EscapedPath :: string
  Content_Type :: string
  Body :: "goerror + string"

text \<open>
  What \<open>h\<close> writes: \<open>http.Error\<close> with its message and status code, or the reply with
  content type application/json.
\<close>

datatype response = http_Error string nat | Write string

fun trim_prefix :: "string \<Rightarrow> string \<Rightarrow> string option" where
  "trim_prefix [] s = Some s"
| "trim_prefix (x # xs) [] = None"
| "trim_prefix (x # xs) (c # cs) = (if x = c then trim_prefix xs cs else None)"

subsection \<open>Regular expressions\<close>

text \<open>
  \<open>regexp.MatchString\<close> for the patterns that consist of: an optional \<open>^\<close> at the
  start and an optional \<open>$\<close> at the end; literal characters; \<open>.\<close>; \<open>\d\<close>; a backslash
  before a punctuation character; character classes of single characters, ranges and
  \<open>\d\<close>;
  and \<open>*\<close>, \<open>+\<close> or \<open>?\<close> after one of these. The patterns of \<open>h\<close> are of this kind for a
  namespace and a resource of this kind. The result is \<open>None\<close> for every other pattern
  and for text that is not ASCII. The messages of the parse errors are cut short of the
  expression that they quote.
\<close>

datatype repeat = One | Opt | Star | Plus

datatype class_item = Lit char | Digits | Hyphen

datatype scanning = Normal | Escape | Class "class_item list" | Class_Escape "class_item list"

definition punctuation :: "char \<Rightarrow> bool" where
  "punctuation c =
     (c \<notin> set ''0123456789ABCDEFGHIJKLMNOPQRSTUVWXYZabcdefghijklmnopqrstuvwxyz'')"

definition is_digit :: "char \<Rightarrow> bool" where
  "is_digit c = (c \<in> set ''0123456789'')"

fun repeat_of :: "char \<Rightarrow> repeat" where
  "repeat_of c = (if c = CHR ''*'' then Star else if c = CHR ''+'' then Plus else Opt)"

text \<open>The characters of a class, from what stands between the brackets.\<close>

fun class_of :: "class_item list \<Rightarrow> (char \<Rightarrow> bool) option" where
  "class_of [] = Some (\<lambda>x. False)"
| "class_of (Hyphen # r) = None"
| "class_of (Digits # r) = map_option (\<lambda>P x. is_digit x \<or> P x) (class_of r)"
| "class_of (Lit a # Hyphen # Lit b # r) =
     (if (of_char b :: nat) < of_char a then None
      else map_option
        (\<lambda>P x. ((of_char a :: nat) \<le> of_char x \<and> (of_char x :: nat) \<le> of_char b) \<or> P x)
        (class_of r))"
| "class_of (Lit a # r) = map_option (\<lambda>P x. x = a \<or> P x) (class_of r)"

text \<open>
  The pattern after its \<open>^\<close>, read from left to right into the items it consists of, each
  a set of characters with its repetition, and whether it ends in \<open>$\<close>.
\<close>

fun scan ::
  "scanning \<Rightarrow> ((char \<Rightarrow> bool) \<times> repeat) list \<Rightarrow> string
     \<Rightarrow> (goerror + ((char \<Rightarrow> bool) \<times> repeat) list \<times> bool) option" where
  "scan Normal acc [] = Some (Inr (rev acc, False))"
| "scan Escape acc [] =
     Some (Inl (errors_New ''error parsing regexp: trailing backslash at end of expression''))"
| "scan (Class cs) acc [] = Some (Inl (errors_New ''error parsing regexp: missing closing ]''))"
| "scan (Class_Escape cs) acc [] =
     Some (Inl (errors_New ''error parsing regexp: trailing backslash at end of expression''))"
| "scan Normal acc (c # s) =
     (if c = CHR 0x5C then scan Escape acc s
      else if c = CHR ''['' then scan (Class []) acc s
      else if c \<in> set ''*+?'' then
        (case acc of
           [] \<Rightarrow> Some (Inl (errors_New
                   ''error parsing regexp: missing argument to repetition operator''))
         | (P, One) # r \<Rightarrow> scan Normal ((P, repeat_of c) # r) s
         | _ \<Rightarrow> None)
      else if c = CHR ''.'' then scan Normal ((\<lambda>x. x \<noteq> CHR 0x0A, One) # acc) s
      else if c = CHR ''$'' then (if s = [] then Some (Inr (rev acc, True)) else None)
      else if c \<in> set ''()|{^'' then None
      else scan Normal ((\<lambda>x. x = c, One) # acc) s)"
| "scan Escape acc (c # s) =
     (if c = CHR ''d'' then scan Normal ((is_digit, One) # acc) s
      else if punctuation c then scan Normal ((\<lambda>x. x = c, One) # acc) s
      else None)"
| "scan (Class cs) acc (c # s) =
     (if c = CHR '']'' then
        (if cs = [] then None
         else (case class_of (rev cs) of
                 None \<Rightarrow> None
               | Some P \<Rightarrow> scan Normal ((P, One) # acc) s))
      else if c = CHR 0x5C then scan (Class_Escape cs) acc s
      else if c = CHR ''['' \<or> (c = CHR ''^'' \<and> cs = []) then None
      else if c = CHR ''-'' then scan (Class (Hyphen # cs)) acc s
      else scan (Class (Lit c # cs)) acc s)"
| "scan (Class_Escape cs) acc (c # s) =
     (if c = CHR ''d'' then scan (Class (Digits # cs)) acc s
      else if punctuation c then scan (Class (Lit c # cs)) acc s
      else None)"

text \<open>The items match the whole text, or when there is no \<open>$\<close> a prefix of it.\<close>

fun matches :: "((char \<Rightarrow> bool) \<times> repeat) list \<Rightarrow> bool \<Rightarrow> string \<Rightarrow> bool" where
  "matches [] eol s = (if eol then s = [] else True)"
| "matches ((P, q) # r) eol [] = ((q = Opt \<or> q = Star) \<and> matches r eol [])"
| "matches ((P, q) # r) eol (x # xs) =
     (case q of
        One \<Rightarrow> P x \<and> matches r eol xs
      | Opt \<Rightarrow> matches r eol (x # xs) \<or> (P x \<and> matches r eol xs)
      | Star \<Rightarrow> matches r eol (x # xs) \<or> (P x \<and> matches ((P, Star) # r) eol xs)
      | Plus \<Rightarrow> P x \<and> matches ((P, Star) # r) eol xs)"

text \<open>Without \<open>^\<close> the match may start anywhere in the text.\<close>

fun search :: "((char \<Rightarrow> bool) \<times> repeat) list \<Rightarrow> bool \<Rightarrow> string \<Rightarrow> bool" where
  "search items eol [] = matches items eol []"
| "search items eol (x # xs) = (matches items eol (x # xs) \<or> search items eol xs)"

definition regexp_MatchString :: "string \<Rightarrow> string \<Rightarrow> (goerror + bool) option" where
  "regexp_MatchString pattern s =
     (if \<not> list_all (\<lambda>c. (of_char c :: nat) < 128) (pattern @ s) then None
      else (case pattern of
              [] \<Rightarrow> Some (Inr True)
            | c # rest \<Rightarrow>
                if c = CHR ''^'' then
                  (if rest \<noteq> [] \<and> hd rest \<in> set ''*+?'' then None
                   else (case scan Normal [] rest of
                           None \<Rightarrow> None
                         | Some (Inl err) \<Rightarrow> Some (Inl err)
                         | Some (Inr (items, eol)) \<Rightarrow> Some (Inr (matches items eol s))))
                else (case scan Normal [] pattern of
                        None \<Rightarrow> None
                      | Some (Inl err) \<Rightarrow> Some (Inl err)
                      | Some (Inr (items, eol)) \<Rightarrow> Some (Inr (search items eol s)))))"

text \<open>\<open>path.Split\<close>: the path up to and with its last slash, and what follows.\<close>

definition path_Split :: "string \<Rightarrow> string \<times> string" where
  "path_Split p =
     (rev (dropWhile (\<lambda>c. c \<noteq> CHR ''/'') (rev p)),
      rev (takeWhile (\<lambda>c. c \<noteq> CHR ''/'') (rev p)))"

fun fromHexChar :: "char \<Rightarrow> nat option" where
  "fromHexChar c =
     (let n = of_char c :: nat in
      if 48 \<le> n \<and> n \<le> 57 then Some (n - 48)
      else if 97 \<le> n \<and> n \<le> 102 then Some (n - 87)
      else if 65 \<le> n \<and> n \<le> 70 then Some (n - 55)
      else None)"

text \<open>
  \<open>hex.DecodeString\<close>, bytes as numbers below 256. The message of the invalid byte
  error is cut short of the byte it prints.
\<close>

fun hex_DecodeString :: "string \<Rightarrow> goerror + nat list" where
  "hex_DecodeString [] = Inr []"
| "hex_DecodeString [p] =
     (case fromHexChar p of
        None \<Rightarrow> Inl (errors_New ''encoding/hex: invalid byte'')
      | Some a \<Rightarrow> Inl (errors_New ''encoding/hex: odd length hex string''))"
| "hex_DecodeString (p # q # s) =
     (case fromHexChar p of
        None \<Rightarrow> Inl (errors_New ''encoding/hex: invalid byte'')
      | Some a \<Rightarrow>
          (case fromHexChar q of
             None \<Rightarrow> Inl (errors_New ''encoding/hex: invalid byte'')
           | Some b \<Rightarrow>
               (case hex_DecodeString s of
                  Inl err \<Rightarrow> Inl err
                | Inr bs \<Rightarrow> Inr ((16 * a + b) # bs))))"

definition encodeStd :: "nat \<Rightarrow> char" where
  "encodeStd n =
     ''ABCDEFGHIJKLMNOPQRSTUVWXYZabcdefghijklmnopqrstuvwxyz0123456789+/'' ! n"

text \<open>\<open>base64.StdEncoding.EncodeToString\<close>.\<close>

fun base64_EncodeToString :: "nat list \<Rightarrow> string" where
  "base64_EncodeToString [] = []"
| "base64_EncodeToString [a] =
     [encodeStd (a div 4), encodeStd ((a mod 4) * 16), CHR ''='', CHR ''='']"
| "base64_EncodeToString [a, b] =
     [encodeStd (a div 4), encodeStd ((a mod 4) * 16 + b div 16),
      encodeStd ((b mod 16) * 4), CHR ''='']"
| "base64_EncodeToString (a # b # c # bs) =
     [encodeStd (a div 4), encodeStd ((a mod 4) * 16 + b div 16),
      encodeStd ((b mod 16) * 4 + c div 64), encodeStd (c mod 64)]
     @ base64_EncodeToString bs"

text \<open>
  The first part of \<open>h\<close>, the switch on the request method: the JSON payload
  \<open>msgBuf\<close>, or the error response with which \<open>h\<close> returns; \<open>None\<close> where the pattern
  is one that \<open>regexp_MatchString\<close> does not model. The patterns are those that
  \<open>fmt.Sprintf\<close> makes of the namespace and the resource.
\<close>

definition h_msgBuf :: "'m restClosure \<Rightarrow> Request \<Rightarrow> (response + string) option" where
  "h_msgBuf c r =
     (if Method r = ''GET'' then
        (if h_k c = emptyGET then Some (Inr ''{}'')
         else if h_k c = intGET then
           (case regexp_MatchString
                   (''^/v'' @ [CHR 0x5C] @ ''d/'' @ h_namespace c @ ''/'' @ h_resource c @ ''/''
                      @ [CHR 0x5C] @ ''d+$'') (EscapedPath r) of
              None \<Rightarrow> None
            | Some (Inl err) \<Rightarrow> Some (Inl (http_Error (Error err) 500))
            | Some (Inr ok) \<Rightarrow>
                if \<not> ok then Some (Inl (http_Error ''invalid path'' 404))
                else (let num = snd (path_Split (EscapedPath r))
                      in Some (Inr (''{'' @ [CHR 0x22] @ h_fieldNameGET c @ [CHR 0x22]
                                      @ '': '' @ num @ ''}''))))
         else if h_k c = sliceGET then
           (case regexp_MatchString
                   (''^/v'' @ [CHR 0x5C] @ ''d/'' @ h_namespace c @ ''/'' @ h_resource c
                      @ ''/[0-9a-f]+$'') (EscapedPath r) of
              None \<Rightarrow> None
            | Some (Inl err) \<Rightarrow> Some (Inl (http_Error (Error err) 500))
            | Some (Inr ok) \<Rightarrow>
                if \<not> ok then Some (Inl (http_Error ''invalid path'' 404))
                else (let hexStr = snd (path_Split (EscapedPath r))
                      in case hex_DecodeString hexStr of
                           Inl err \<Rightarrow> Some (Inl (http_Error (Error err) 400))
                         | Inr byteBuf \<Rightarrow>
                             (let encoded = base64_EncodeToString byteBuf
                              in Some (Inr (''{'' @ [CHR 0x22] @ h_fieldNameGET c @ [CHR 0x22]
                                              @ '': '' @ [CHR 0x22] @ encoded @ [CHR 0x22]
                                              @ ''}'')))))
         else Some (Inl (http_Error ''invalid GET'' 400)))
      else if Method r = ''POST'' \<or> Method r = ''PUT'' then
        (if Content_Type r \<noteq> ''application/json''
         then Some (Inl (http_Error ''content type needs to be application/json'' 400))
         else (case Body r of
                 Inl err \<Rightarrow> Some (Inl (http_Error (Error err) 400))
               | Inr msgBuf \<Rightarrow> Some (Inr msgBuf)))
      else Some (Inl (http_Error (''unsupported method: '' @ Method r) 405)))"

text \<open>
  \<open>h\<close>, with \<open>json.Unmarshal\<close> into a new value of the message type and
  \<open>json.Marshal\<close> as parameters.
\<close>

definition h ::
  "(rtype \<Rightarrow> string \<Rightarrow> goerror + 'm) \<Rightarrow> ('m gvalue \<Rightarrow> goerror + string)
     \<Rightarrow> 'm restClosure \<Rightarrow> Request \<Rightarrow> response outcome option" where
  "h json_Unmarshal json_Marshal c r =
     (case h_msgBuf c r of
        None \<Rightarrow> None
      | Some (Inl resp) \<Rightarrow> Some (Return resp)
      | Some (Inr msgBuf) \<Rightarrow>
          Some (case json_Unmarshal (msgType (h_sh c)) msgBuf of
                  Inl err \<Rightarrow> Return (http_Error (Error err) 400)
                | Inr msg \<Rightarrow>
                    (case callInterfaceFunc (h_f c) (msgType (h_sh c), msg) False of
                       Panic s \<Rightarrow> Panic s
                     | Return (reply, tun, Some err) \<Rightarrow> Return (http_Error (Error err) 400)
                     | Return (reply, Some t, None) \<Rightarrow>
                         Return (http_Error ''streaming requests are not supported'' 400)
                     | Return (reply, None, None) \<Rightarrow>
                         (case json_Marshal reply of
                            Inl err \<Rightarrow> Return (http_Error (Error err) 500)
                          | Inr body \<Rightarrow> Return (Write body)))))"

subsection \<open>The operations of the processor\<close>

datatype 'm operation =
    Op_RegisterHandler "'m govalue option"
  | Op_RegisterStreamingHandler "'m govalue option"
  | Op_RegisterHandlers "'m govalue option list"
  | Op_RegisterStreamingHandlers "'m govalue option list"
  | Op_RegisterRESTHandler "'m govalue option" int string string
  | Op_ProcessClientRequest string string

text \<open>The processor as an operation leaves it; a dispatch does not write to it.\<close>

fun after ::
  "(rtype \<Rightarrow> string \<Rightarrow> goerror + 'm) \<Rightarrow> ('m gvalue \<Rightarrow> goerror + string option)
     \<Rightarrow> 'm ServiceProcessor \<Rightarrow> 'm operation \<Rightarrow> 'm ServiceProcessor" where
  "after decode encode p (Op_RegisterHandler f) = fst (RegisterHandler p f)"
| "after decode encode p (Op_RegisterStreamingHandler f) = fst (RegisterStreamingHandler p f)"
| "after decode encode p (Op_RegisterHandlers fs) = fst (RegisterHandlers p fs)"
| "after decode encode p (Op_RegisterStreamingHandlers fs) =
     fst (RegisterStreamingHandlers p fs)"
| "after decode encode p (Op_RegisterRESTHandler f since namespace method) =
     fst (RegisterRESTHandler p f since namespace method)"
| "after decode encode p (Op_ProcessClientRequest path buf) = p"

section \<open>Handler shapes, as the specification words them\<close>

fun ptr_to_struct :: "rtype \<Rightarrow> bool" where
  "ptr_to_struct (PtrT _ _ (StructT _ _ _)) = True"
| "ptr_to_struct _ = False"

text \<open>
  A valid unary handler: a function with exactly one argument that is a pointer to a
  struct, and exactly two return values, a pointer to a struct or an interface, and an
  error.
\<close>

fun valid_unary_signature :: "rtype \<Rightarrow> bool" where
  "valid_unary_signature (FuncT _ _ [a] [r, e]) =
     (ptr_to_struct a \<and> (ptr_to_struct r \<or> Kind r = reflect_Interface)
        \<and> Implements_errType e)"
| "valid_unary_signature _ = False"

fun chan_of_message :: "rtype \<Rightarrow> bool" where
  "chan_of_message (ChanT _ _ _ e) = (ptr_to_struct e \<or> Kind e = reflect_Interface)"
| "chan_of_message _ = False"

fun chan_of_bool :: "rtype \<Rightarrow> bool" where
  "chan_of_bool (ChanT _ _ _ e) = (Kind e = reflect_Bool)"
| "chan_of_bool _ = False"

text \<open>
  A valid streaming handler: one argument as above, and exactly three return values,
  a channel of an interface or of a pointer to a struct, a boolean channel, and an error.
\<close>

fun valid_streaming_signature :: "rtype \<Rightarrow> bool" where
  "valid_streaming_signature (FuncT _ _ [a] [c, b, e]) =
     (ptr_to_struct a \<and> chan_of_message c \<and> chan_of_bool b \<and> Implements_errType e)"
| "valid_streaming_signature _ = False"

text \<open>
  The diagnostics by position: the input as a whole, its argument, the number of return
  values, then each return value in turn. \<open>None\<close> when no position offends.
\<close>

fun input_diagnostic :: "rtype \<Rightarrow> string option" where
  "input_diagnostic (FuncT _ _ [a] _) =
     (if Kind a \<noteq> reflect_Ptr then Some ''Argument must be a *pointer* to a struct''
      else if \<not> ptr_to_struct a then Some ''Argument must be a pointer to *struct*''
      else None)"
| "input_diagnostic (FuncT _ _ _ _) = Some ''Need one argument: *struct''"
| "input_diagnostic _ = Some ''Input is not a function''"

fun unary_output_diagnostic :: "rtype list \<Rightarrow> string option" where
  "unary_output_diagnostic [r, e] =
     (if Kind r \<noteq> reflect_Interface \<and> Kind r \<noteq> reflect_Ptr
      then Some ''1st return value must be a *pointer* to a struct or an interface''
      else if Kind r = reflect_Ptr \<and> \<not> ptr_to_struct r
      then Some ''1st return value must be a pointer to a *struct* or an interface''
      else if \<not> Implements_errType e
      then Some (''2nd return value has to implement error, but is: '' @ String_of e)
      else None)"
| "unary_output_diagnostic _ = Some ''Need 2 return values: network.Body and error''"

fun streaming_output_diagnostic :: "rtype list \<Rightarrow> string option" where
  "streaming_output_diagnostic [c, b, e] =
     (case c of
        ChanT _ _ _ ce \<Rightarrow>
          (if Kind ce \<noteq> reflect_Interface \<and> Kind ce \<noteq> reflect_Ptr
           then Some ''1st return value must be a channel of a *pointer* to a struct''
           else if Kind ce = reflect_Ptr \<and> \<not> ptr_to_struct ce
           then Some ''1st return value must be a channel of a pointer to a *struct*''
           else (case b of
                   ChanT _ _ _ be \<Rightarrow>
                     (if Kind be \<noteq> reflect_Bool
                      then Some ''2nd return value must be a boolean channel''
                      else if \<not> Implements_errType e
                      then Some (''3rd return value has to implement error, but is: ''
                                  @ String_of e)
                      else None)
                 | _ \<Rightarrow> Some ''2nd return value must be a channel''))
      | _ \<Rightarrow> Some ''1st return value must be a channel'')"
| "streaming_output_diagnostic _ =
     Some ''Need 3 return values: chan interface{}, chan bool and error''"

fun results_of :: "rtype \<Rightarrow> rtype list" where
  "results_of (FuncT _ _ _ os) = os"
| "results_of _ = []"

definition unary_diagnostic :: "rtype \<Rightarrow> string option" where
  "unary_diagnostic ft =
     (case input_diagnostic ft of
        Some m \<Rightarrow> Some m
      | None \<Rightarrow> unary_output_diagnostic (results_of ft))"

definition streaming_diagnostic :: "rtype \<Rightarrow> string option" where
  "streaming_diagnostic ft =
     (case input_diagnostic ft of
        Some m \<Rightarrow> Some m
      | None \<Rightarrow> streaming_output_diagnostic (results_of ft))"

fun byte_slice :: "rtype \<Rightarrow> bool" where
  "byte_slice (SliceT _ _ e) = (Kind e = reflect_Uint8)"
| "byte_slice _ = False"

text \<open>
  The paths of the specification's pattern \<open>^/v\d+/NS/RES/\d+$\<close>, with one or more
  digits after \<open>/v\<close>.
\<close>

definition spec_int_path :: "string \<Rightarrow> string \<Rightarrow> string \<Rightarrow> bool" where
  "spec_int_path ns res path =
     (case trim_prefix ''/v'' path of
        None \<Rightarrow> False
      | Some rest \<Rightarrow>
          takeWhile is_digit rest \<noteq> [] \<and>
          (case trim_prefix (''/'' @ ns @ ''/'' @ res @ ''/'') (dropWhile is_digit rest) of
             None \<Rightarrow> False
           | Some t \<Rightarrow> t \<noteq> [] \<and> list_all is_digit t))"

section \<open>The state of a stream\<close>

text \<open>
  The item that the goroutine holds between its receive and its send, a measure that
  every step of either actor decreases, and the relation between a state and the values
  \<open>vs\<close> of the handler, \<open>e\<close> giving their encodings: the goroutine reads a channel that
  can be received from; the first \<open>n\<close> values have left \<open>inChan\<close>, and their encodings
  stand, in order, in what the transport received, then in the buffer of \<open>outChan\<close>, then
  in the goroutine's hand; the buffer holds at most 100 items; \<open>outChan\<close> is closed
  exactly when the goroutine has returned, which it does only on the empty \<open>inChan\<close>.
\<close>

fun held :: "forwarder \<Rightarrow> string option list" where
  "held (Sending b) = [b]"
| "held _ = []"

fun weight :: "forwarder \<Rightarrow> nat" where
  "weight Selecting = 1"
| "weight (Sending b) = 3"
| "weight Returned = 0"

definition remaining :: "'m stream \<Rightarrow> nat" where
  "remaining s = 3 * length (inChan s) + weight (goroutine s) + length (buffer (outChan s))"

definition forwarding ::
  "('m gvalue \<Rightarrow> string option) \<Rightarrow> 'm gvalue list \<Rightarrow> 'm stream \<Rightarrow> bool" where
  "forwarding e vs s =
     (\<exists>n. n \<le> length vs \<and> inChan s = drop n vs
        \<and> Select_recv (source s) = Return True
        \<and> received s @ buffer (outChan s) @ held (goroutine s) = map e (take n vs)
        \<and> capacity (outChan s) = 100
        \<and> length (buffer (outChan s)) \<le> 100
        \<and> (goroutine s = Returned \<longrightarrow> inChan s = [])
        \<and> (closed (outChan s) \<longleftrightarrow> goroutine s = Returned))"

section \<open>Supporting lemmas\<close>

subsection \<open>Type descriptors\<close>

lemma reflect_TypeOf_Some [simp]: "reflect_TypeOf (Some f) = Some (TypeOf f)"
  by (simp add: reflect_TypeOf_def)

lemma reflect_TypeOf_None [simp]: "reflect_TypeOf None = None"
  by (simp add: reflect_TypeOf_def)

lemma scalar_kind_simple [simp]:
  "scalar_kind s \<noteq> reflect_Ptr" "scalar_kind s \<noteq> reflect_Struct"
  "scalar_kind s \<noteq> reflect_Interface" "scalar_kind s \<noteq> reflect_Chan"
  "scalar_kind s \<noteq> reflect_Func" "scalar_kind s \<noteq> reflect_Slice"
  by (cases s; simp)+

lemma Kind_Func_iff: "Kind t = reflect_Func \<longleftrightarrow> (\<exists>n b ins os. t = FuncT n b ins os)"
  by (cases t) simp_all

lemma Kind_Ptr_iff: "Kind t = reflect_Ptr \<longleftrightarrow> (\<exists>n b e. t = PtrT n b e)"
  by (cases t) simp_all

lemma Kind_Chan_iff: "Kind t = reflect_Chan \<longleftrightarrow> (\<exists>n b d e. t = ChanT n b d e)"
  by (cases t) simp_all

lemma Kind_Struct_iff: "Kind t = reflect_Struct \<longleftrightarrow> (\<exists>n b fs. t = StructT n b fs)"
  by (cases t) simp_all

lemma ptr_to_struct_iff:
  "ptr_to_struct t \<longleftrightarrow> (\<exists>n b n' b' fs. t = PtrT n b (StructT n' b' fs))"
  by (cases t rule: ptr_to_struct.cases) simp_all

lemma handlerInputCheck_eq:
  "handlerInputCheck (Some f) = Return (map_option errors_New (input_diagnostic (TypeOf f)))"
proof (cases "TypeOf f")
  case (FuncT n b ins os)
  show ?thesis
  proof (cases ins)
    case Nil
    with FuncT show ?thesis by (simp add: handlerInputCheck_def)
  next
    case (Cons a as)
    show ?thesis
    proof (cases as)
      case Nil
      with Cons FuncT show ?thesis
        by (cases a rule: ptr_to_struct.cases) (simp_all add: handlerInputCheck_def)
    next
      case (Cons a' as')
      with \<open>ins = a # as\<close> FuncT show ?thesis by (simp add: handlerInputCheck_def)
    qed
  qed
qed (simp_all add: handlerInputCheck_def)


lemma input_diagnostic_None:
  "input_diagnostic ft = None \<longleftrightarrow>
     (\<exists>n b pn pb sn sb fs os. ft = FuncT n b [PtrT pn pb (StructT sn sb fs)] os)"
  by (cases ft rule: input_diagnostic.cases)
     (auto simp: ptr_to_struct_iff Kind_Ptr_iff)

lemma createServiceHandler_checked:
  assumes ft: "TypeOf f = FuncT n b [PtrT pn pb (StructT sn sb fs)] os"
  shows "createServiceHandler (Some f) =
     (case unary_output_diagnostic os of
        Some m \<Rightarrow> Return (Inl (errors_New m))
      | None \<Rightarrow>
          bind (index (strings_Split sn (CHR ''.'')) 1) (\<lambda>pm.
            Return (Inr (pm, \<lparr>handler = Some f, msgType = StructT sn sb fs, streaming = False\<rparr>))))"
proof (cases os rule: unary_output_diagnostic.cases)
  case (1 r e)
  show ?thesis
  proof (cases "Kind r = reflect_Interface")
    case True
    with 1 ft show ?thesis by (simp add: createServiceHandler_def)
  next
    case notI: False
    show ?thesis
    proof (cases "Kind r = reflect_Ptr")
      case False
      with notI 1 ft show ?thesis by (simp add: createServiceHandler_def)
    next
      case True
      then obtain rn rb re where r: "r = PtrT rn rb re" by (auto simp: Kind_Ptr_iff)
      show ?thesis
      proof (cases "Kind re = reflect_Struct")
        case True
        with r 1 ft show ?thesis
          by (auto simp: createServiceHandler_def Kind_Struct_iff)
      next
        case False
        then have "\<not> ptr_to_struct r" using r by (auto simp: ptr_to_struct_iff)
        with False r 1 ft show ?thesis by (simp add: createServiceHandler_def)
      qed
    qed
  qed
qed (use ft in \<open>simp_all add: createServiceHandler_def\<close>)


lemma strings_Split_nonempty: "strings_Split s c \<noteq> []"
  by (induction s) (auto split: list.splits)

lemma strings_Split_no_sep: "c \<notin> set s \<Longrightarrow> strings_Split s c = [s]"
  by (induction s) auto

lemma strings_Split_append:
  "c \<notin> set a \<Longrightarrow> strings_Split (a @ c # b) c = a # strings_Split b c"
  by (induction a) auto

lemma strings_Split_qualified:
  "c \<notin> set a \<Longrightarrow> c \<notin> set b \<Longrightarrow> strings_Split (a @ c # b) c = [a, b]"
  by (simp add: strings_Split_append strings_Split_no_sep)

lemma valid_unary_signature_iff:
  "valid_unary_signature ft \<longleftrightarrow>
     (\<exists>n b a r e. ft = FuncT n b [a] [r, e] \<and> ptr_to_struct a
        \<and> (ptr_to_struct r \<or> Kind r = reflect_Interface) \<and> Implements_errType e)"
  by (cases ft rule: valid_unary_signature.cases) auto

lemma unary_output_diagnostic_None:
  "unary_output_diagnostic os = None \<longleftrightarrow>
     (\<exists>r e. os = [r, e] \<and> (ptr_to_struct r \<or> Kind r = reflect_Interface)
        \<and> Implements_errType e)"
  by (cases os rule: unary_output_diagnostic.cases)
     (auto simp: ptr_to_struct_iff Kind_Ptr_iff)

lemma valid_unary_iff: "valid_unary_signature ft \<longleftrightarrow> unary_diagnostic ft = None"
proof
  assume "valid_unary_signature ft"
  then obtain n b a r e where ft: "ft = FuncT n b [a] [r, e]" and a: "ptr_to_struct a"
    and r: "ptr_to_struct r \<or> Kind r = reflect_Interface" and e: "Implements_errType e"
    by (auto simp: valid_unary_signature_iff)
  from a have "input_diagnostic ft = None"
    unfolding ft input_diagnostic_None by (auto simp: ptr_to_struct_iff)
  moreover from r e have "unary_output_diagnostic [r, e] = None"
    unfolding unary_output_diagnostic_None by simp
  ultimately show "unary_diagnostic ft = None"
    by (simp add: unary_diagnostic_def ft)
next
  assume d: "unary_diagnostic ft = None"
  then have i: "input_diagnostic ft = None"
    by (simp add: unary_diagnostic_def split: option.splits)
  with d have o: "unary_output_diagnostic (results_of ft) = None"
    by (simp add: unary_diagnostic_def)
  from i o show "valid_unary_signature ft"
    unfolding input_diagnostic_None unary_output_diagnostic_None valid_unary_signature_iff
    by auto
qed

lemma RegisterHandler_diagnosed:
  assumes "unary_diagnostic (TypeOf f) = Some m"
  shows "RegisterHandler p (Some f) = (p, Return (Some (errors_New m)))"
proof (cases "input_diagnostic (TypeOf f)")
  case (Some m')
  with assms show ?thesis
    by (simp add: RegisterHandler_def handlerInputCheck_eq unary_diagnostic_def)
next
  case None
  then obtain n b pn pb sn sb fs os
    where ft: "TypeOf f = FuncT n b [PtrT pn pb (StructT sn sb fs)] os"
    unfolding input_diagnostic_None by blast
  from assms None ft have "unary_output_diagnostic os = Some m"
    by (simp add: unary_diagnostic_def)
  with None show ?thesis
    by (simp add: RegisterHandler_def handlerInputCheck_eq createServiceHandler_checked [OF ft])
qed

lemma RegisterHandler_defined_struct:
  assumes ft: "TypeOf f = FuncT n b [PtrT pn pb (StructT (pkg @ CHR ''.'' # name) sb fs)] os"
    and os: "unary_output_diagnostic os = None"
    and pkg: "CHR ''.'' \<notin> set pkg" and name: "CHR ''.'' \<notin> set name"
  shows "RegisterHandler p (Some f) =
    (p\<lparr>handlers := (handlers p)(name \<mapsto>
        \<lparr>handler = Some f, msgType = StructT (pkg @ CHR ''.'' # name) sb fs, streaming = False\<rparr>)\<rparr>,
     Return None)"
proof -
  have "input_diagnostic (TypeOf f) = None"
    unfolding input_diagnostic_None using ft by blast
  then show ?thesis
    by (simp add: RegisterHandler_def handlerInputCheck_eq createServiceHandler_checked [OF ft]
        os strings_Split_qualified [OF pkg name] index_def)
qed

lemma first_result_check:
  "(if Kind t \<noteq> reflect_Interface
    then (if Kind t \<noteq> reflect_Ptr then Return (Some A)
          else bind (Elem t) (\<lambda>e. if Kind e \<noteq> reflect_Struct then Return (Some B)
                                   else Return None))
    else Return None) =
   Return (if Kind t \<noteq> reflect_Interface \<and> Kind t \<noteq> reflect_Ptr then Some A
           else if Kind t = reflect_Ptr \<and> \<not> ptr_to_struct t then Some B
           else None)"
  by (cases t rule: ptr_to_struct.cases) simp_all

lemma RegisterStreamingHandler_three:
  assumes ft: "TypeOf f = FuncT n b [PtrT pn pb (StructT sn sb fs)] [c, b', e]"
  shows "RegisterStreamingHandler p (Some f) =
     (case streaming_output_diagnostic [c, b', e] of
        Some m \<Rightarrow> (p, Return (Some (errors_New m)))
      | None \<Rightarrow>
          (case index (strings_Split sn (CHR ''.'')) 1 of
             Panic s \<Rightarrow> (p, Panic s)
           | Return pm \<Rightarrow>
               (p\<lparr>handlers := (handlers p)(pm \<mapsto>
                    \<lparr>handler = Some f, msgType = StructT sn sb fs, streaming = True\<rparr>)\<rparr>,
                Return None)))"
proof -
  have i: "handlerInputCheck (Some f) = Return None"
    by (simp add: handlerInputCheck_eq ft)
  show ?thesis
  proof (cases "Kind c = reflect_Chan")
    case False
    then have "streaming_output_diagnostic [c, b', e] = Some ''1st return value must be a channel''"
      by (cases c) simp_all
    with False ft i show ?thesis
      unfolding RegisterStreamingHandler_def first_result_check by simp
  next
    case True
    then obtain cn cb cd ce where c: "c = ChanT cn cb cd ce" by (auto simp: Kind_Chan_iff)
    show ?thesis
    proof (cases "Kind b' = reflect_Chan")
      case False
      then have nb: "(case b' of ChanT x y z be \<Rightarrow> g be | _ \<Rightarrow> d) = d"
        for g and d :: "string option"
        by (cases b') simp_all
      from False c ft i show ?thesis
        unfolding RegisterStreamingHandler_def first_result_check
        by (simp add: nb)
    next
      case True
      then obtain bn bb bd be where b': "b' = ChanT bn bb bd be" by (auto simp: Kind_Chan_iff)
      from c b' ft i show ?thesis
        unfolding RegisterStreamingHandler_def first_result_check
        by (simp split: outcome.splits)
    qed
  qed
qed


lemma RegisterStreamingHandler_checked:
  assumes ft: "TypeOf f = FuncT n b [PtrT pn pb (StructT sn sb fs)] os"
  shows "RegisterStreamingHandler p (Some f) =
     (case streaming_output_diagnostic os of
        Some m \<Rightarrow> (p, Return (Some (errors_New m)))
      | None \<Rightarrow>
          (case index (strings_Split sn (CHR ''.'')) 1 of
             Panic s \<Rightarrow> (p, Panic s)
           | Return pm \<Rightarrow>
               (p\<lparr>handlers := (handlers p)(pm \<mapsto>
                    \<lparr>handler = Some f, msgType = StructT sn sb fs, streaming = True\<rparr>)\<rparr>,
                Return None)))"
proof (cases "length os = 3")
  case True
  then obtain c b' e where "os = [c, b', e]"
    by (auto simp: length_Suc_conv numeral_3_eq_3)
  with RegisterStreamingHandler_three [of f n b pn pb sn sb fs c b' e p] ft
  show ?thesis by simp
next
  case False
  then have d: "streaming_output_diagnostic os =
      Some ''Need 3 return values: chan interface{}, chan bool and error''"
    by (cases os rule: streaming_output_diagnostic.cases) simp_all
  have i: "handlerInputCheck (Some f) = Return None"
    by (simp add: handlerInputCheck_eq ft)
  from False i ft show ?thesis
    unfolding d RegisterStreamingHandler_def first_result_check by simp
qed

lemma RegisterStreamingHandler_diagnosed:
  assumes "streaming_diagnostic (TypeOf f) = Some m"
  shows "RegisterStreamingHandler p (Some f) = (p, Return (Some (errors_New m)))"
proof (cases "input_diagnostic (TypeOf f)")
  case (Some m')
  with assms show ?thesis
    by (simp add: RegisterStreamingHandler_def handlerInputCheck_eq streaming_diagnostic_def)
next
  case None
  then obtain n b pn pb sn sb fs os
    where ft: "TypeOf f = FuncT n b [PtrT pn pb (StructT sn sb fs)] os"
    unfolding input_diagnostic_None by blast
  from assms None ft have "streaming_output_diagnostic os = Some m"
    by (simp add: streaming_diagnostic_def)
  then show ?thesis
    by (simp add: RegisterStreamingHandler_checked [OF ft])
qed

lemma valid_streaming_signature_iff:
  "valid_streaming_signature ft \<longleftrightarrow>
     (\<exists>n b a c b' e. ft = FuncT n b [a] [c, b', e] \<and> ptr_to_struct a
        \<and> chan_of_message c \<and> chan_of_bool b' \<and> Implements_errType e)"
  by (cases ft rule: valid_streaming_signature.cases) auto

lemma chan_of_message_iff:
  "chan_of_message c \<longleftrightarrow>
     (\<exists>n b d e. c = ChanT n b d e \<and> (ptr_to_struct e \<or> Kind e = reflect_Interface))"
  by (cases c) simp_all

lemma chan_of_bool_iff:
  "chan_of_bool c \<longleftrightarrow> (\<exists>n b d e. c = ChanT n b d e \<and> Kind e = reflect_Bool)"
  by (cases c) simp_all

lemma streaming_output_diagnostic_None:
  "streaming_output_diagnostic os = None \<longleftrightarrow>
     (\<exists>c b e. os = [c, b, e] \<and> chan_of_message c \<and> chan_of_bool b \<and> Implements_errType e)"
proof (cases "length os = 3")
  case True
  then obtain c b e where os: "os = [c, b, e]"
    by (auto simp: length_Suc_conv numeral_3_eq_3)
  show ?thesis
    unfolding os
    by (cases c; cases b)
       (auto simp: ptr_to_struct_iff Kind_Ptr_iff split: if_splits)
next
  case False
  then have d: "streaming_output_diagnostic os =
      Some ''Need 3 return values: chan interface{}, chan bool and error''"
    by (cases os rule: streaming_output_diagnostic.cases) simp_all
  with False show ?thesis by auto
qed

lemma valid_streaming_iff:
  "valid_streaming_signature ft \<longleftrightarrow> streaming_diagnostic ft = None"
proof
  assume "valid_streaming_signature ft"
  then obtain n b a c b' e where ft: "ft = FuncT n b [a] [c, b', e]" and a: "ptr_to_struct a"
    and r: "chan_of_message c" "chan_of_bool b'" "Implements_errType e"
    unfolding valid_streaming_signature_iff by blast
  from a have "input_diagnostic ft = None"
    unfolding ft input_diagnostic_None by (auto simp: ptr_to_struct_iff)
  moreover from r have "streaming_output_diagnostic [c, b', e] = None"
    unfolding streaming_output_diagnostic_None by simp
  ultimately show "streaming_diagnostic ft = None"
    by (simp add: streaming_diagnostic_def ft)
next
  assume d: "streaming_diagnostic ft = None"
  then have i: "input_diagnostic ft = None"
    by (simp add: streaming_diagnostic_def split: option.splits)
  with d have o: "streaming_output_diagnostic (results_of ft) = None"
    by (simp add: streaming_diagnostic_def)
  from i o show "valid_streaming_signature ft"
    unfolding input_diagnostic_None streaming_output_diagnostic_None valid_streaming_signature_iff
    by auto
qed


subsection \<open>The handlers map under the operations\<close>

lemma store_or_keep:
  "fst (case X of
          Panic s \<Rightarrow> (p, A s)
        | Return (Inl err) \<Rightarrow> (p, B err)
        | Return (Inr (pm, sh)) \<Rightarrow> (p\<lparr>handlers := (handlers p)(pm \<mapsto> sh)\<rparr>, C)) = p
   \<or> (\<exists>pm sh. fst (case X of
          Panic s \<Rightarrow> (p, A s)
        | Return (Inl err) \<Rightarrow> (p, B err)
        | Return (Inr (pm, sh)) \<Rightarrow> (p\<lparr>handlers := (handlers p)(pm \<mapsto> sh)\<rparr>, C))
        = p\<lparr>handlers := (handlers p)(pm \<mapsto> sh)\<rparr>)"
  by (auto split: outcome.splits sum.splits)

lemma RegisterHandler_state:
  "fst (RegisterHandler p f) = p
   \<or> (\<exists>pm sh. fst (RegisterHandler p f) = p\<lparr>handlers := (handlers p)(pm \<mapsto> sh)\<rparr>)"
proof (cases "handlerInputCheck f")
  case (Panic s)
  then show ?thesis by (simp add: RegisterHandler_def)
next
  case (Return r)
  show ?thesis
  proof (cases r)
    case None
    with Return show ?thesis
      unfolding RegisterHandler_def by (simp only: outcome.case option.case store_or_keep)
  next
    case (Some e)
    with Return show ?thesis by (simp add: RegisterHandler_def)
  qed
qed

lemma RegisterStreamingHandler_state:
  "fst (RegisterStreamingHandler p f) = p
   \<or> (\<exists>pm sh. fst (RegisterStreamingHandler p f) = p\<lparr>handlers := (handlers p)(pm \<mapsto> sh)\<rparr>)"
proof (cases "handlerInputCheck f")
  case (Panic s)
  then show ?thesis by (simp add: RegisterStreamingHandler_def)
next
  case (Return r)
  show ?thesis
  proof (cases r)
    case None
    with Return show ?thesis
      unfolding RegisterStreamingHandler_def Let_def
      by (simp only: outcome.case option.case store_or_keep)
  next
    case (Some e)
    with Return show ?thesis by (simp add: RegisterStreamingHandler_def)
  qed
qed

lemma RegisterHandler_dom: "dom (handlers p) \<subseteq> dom (handlers (fst (RegisterHandler p f)))"
  using RegisterHandler_state [of p f] by auto

lemma RegisterStreamingHandler_dom:
  "dom (handlers p) \<subseteq> dom (handlers (fst (RegisterStreamingHandler p f)))"
  using RegisterStreamingHandler_state [of p f] by auto

lemma RegisterHandlers_dom:
  "dom (handlers p) \<subseteq> dom (handlers (fst (RegisterHandlers p fs)))"
proof (induction fs arbitrary: p)
  case Nil
  show ?case by simp
next
  case (Cons f fs)
  obtain p' r where pr: "RegisterHandler p f = (p', r)" by (cases "RegisterHandler p f")
  with RegisterHandler_dom [of p f] have d: "dom (handlers p) \<subseteq> dom (handlers p')" by simp
  show ?case
  proof (cases "r = Return None")
    case True
    with pr Cons.IH [of p'] d show ?thesis by auto
  next
    case False
    with pr d show ?thesis
      by (auto split: outcome.splits option.splits)
  qed
qed

lemma RegisterStreamingHandlers_dom:
  "dom (handlers p) \<subseteq> dom (handlers (fst (RegisterStreamingHandlers p fs)))"
proof (induction fs arbitrary: p)
  case Nil
  show ?case by simp
next
  case (Cons f fs)
  obtain p' r where pr: "RegisterStreamingHandler p f = (p', r)"
    by (cases "RegisterStreamingHandler p f")
  with RegisterStreamingHandler_dom [of p f] have d: "dom (handlers p) \<subseteq> dom (handlers p')"
    by simp
  show ?case
  proof (cases "r = Return None")
    case True
    with pr Cons.IH [of p'] d show ?thesis by auto
  next
    case False
    with pr d show ?thesis
      by (auto split: outcome.splits option.splits)
  qed
qed

lemma RegisterRESTHandler_handlers:
  "handlers (fst (RegisterRESTHandler p f since namespace method)) = handlers p"
  unfolding RegisterRESTHandler_def Let_def HandleFunc_def
  by (simp split: outcome.splits sum.splits prod.splits option.splits)

subsection \<open>REST registration\<close>

lemma RegisterRESTHandler_invalid_method:
  assumes "method \<noteq> ''GET''" "method \<noteq> ''POST''" "method \<noteq> ''PUT''"
  shows "RegisterRESTHandler p f since namespace method =
    (p, Return (Some (errors_New ''invalid REST method'')))"
  using assms by (simp add: RegisterRESTHandler_def)

lemma RegisterRESTHandler_early_version:
  assumes "since < 3"
  shows "\<exists>err. RegisterRESTHandler p f since namespace method = (p, Return (Some err))"
  using assms by (simp add: RegisterRESTHandler_def)

lemma prepareHandlerGET_fields:
  assumes "In (TypeOf f) 0 = Return (PtrT pn pb (StructT sn sb fs))"
  shows "prepareHandlerGET (Some f) =
    Return (case fs of
        [] \<Rightarrow> (emptyGET, [], None)
      | [(name, t)] \<Rightarrow>
          (case t of
             SliceT _ _ e \<Rightarrow>
               if Kind e = reflect_Uint8 then (sliceGET, name, None)
               else (invalidGET, [], Some (errors_New ''only byte slices and int are supported''))
           | _ \<Rightarrow>
               if Kind t = reflect_Int then (intGET, name, None)
               else (invalidGET, [], Some (errors_New ''only byte slices and int are supported'')))
      | _ \<Rightarrow> (invalidGET, [], Some (errors_New ''number of fields must be 0 or 1'')))"
proof (cases fs)
  case Nil
  with assms show ?thesis by (simp add: prepareHandlerGET_def)
next
  case (Cons x xs)
  obtain name t where x: "x = (name, t)" by (cases x)
  show ?thesis
  proof (cases xs)
    case Nil
    with Cons x assms show ?thesis
      by (cases t) (simp_all add: prepareHandlerGET_def)
  next
    case (Cons y ys)
    with \<open>fs = x # xs\<close> x assms show ?thesis by (simp add: prepareHandlerGET_def)
  qed
qed

lemma RegisterRESTHandler_GET_fields:
  assumes c: "createServiceHandler (Some f) = Return (Inr (res, sh))" and v: "\<not> since < 3"
    and i: "In (TypeOf f) 0 = Return (PtrT pn pb (StructT sn sb fs))"
    and n: "fs \<noteq> []"
    and o: "\<forall>name t. fs = [(name, t)] \<longrightarrow> Kind t \<noteq> reflect_Int \<and> \<not> byte_slice t"
  shows "\<exists>err. RegisterRESTHandler p (Some f) since namespace ''GET''
    = (p, Return (Some err))"
proof -
  have "\<exists>k name err. prepareHandlerGET (Some f) = Return (k, name, Some err)"
  proof (cases fs)
    case Nil
    with n show ?thesis by simp
  next
    case (Cons x xs)
    obtain name t where x: "x = (name, t)" by (cases x)
    show ?thesis
    proof (cases xs)
      case Nil
      with Cons x o have "Kind t \<noteq> reflect_Int" "\<not> byte_slice t" by simp_all
      with Nil Cons x show ?thesis
        unfolding prepareHandlerGET_fields [OF i] by (cases t) simp_all
    next
      case (Cons y ys)
      with \<open>fs = x # xs\<close> x show ?thesis
        unfolding prepareHandlerGET_fields [OF i] by simp
    qed
  qed
  then obtain k name err where "prepareHandlerGET (Some f) = Return (k, name, Some err)"
    by blast
  with c v show ?thesis by (simp add: RegisterRESTHandler_def)
qed

text \<open>
  For a valid unary handler signature whose input struct type prints with at least one
  namespace separator, \<open>RegisterHandler\<close> returns nil and stores the entry under the
  segment that follows the first separator.
\<close>

lemma RegisterHandler_route_key:
  assumes "valid_unary_signature (TypeOf f)"
    and "In (TypeOf f) 0 = Return (PtrT pn pb st)"
    and "2 \<le> length (strings_Split (String_of st) (CHR ''.''))"
  shows "RegisterHandler p (Some f) =
      (p\<lparr>handlers := (handlers p)(strings_Split (String_of st) (CHR ''.'') ! 1 \<mapsto>
           \<lparr>handler = Some f, msgType = st, streaming = False\<rparr>)\<rparr>, Return None)
    \<and> (length (strings_Split (String_of st) (CHR ''.'')) = 2 \<longrightarrow>
         strings_Split (String_of st) (CHR ''.'') ! 1
           = last (strings_Split (String_of st) (CHR ''.'')))"
proof -
  from assms(1) obtain n b a r e where ft: "TypeOf f = FuncT n b [a] [r, e]"
    and a: "ptr_to_struct a"
    and r: "ptr_to_struct r \<or> Kind r = reflect_Interface" and e: "Implements_errType e"
    by (auto simp: valid_unary_signature_iff)
  from assms(2) ft have a': "a = PtrT pn pb st" by simp
  with a obtain sn sb fs where st: "st = StructT sn sb fs"
    by (auto simp: ptr_to_struct_iff)
  have ft': "TypeOf f = FuncT n b [PtrT pn pb (StructT sn sb fs)] [r, e]"
    using ft a' st by simp
  have i: "input_diagnostic (TypeOf f) = None"
    unfolding input_diagnostic_None using ft' by blast
  have os: "unary_output_diagnostic [r, e] = None"
    unfolding unary_output_diagnostic_None using r e by simp
  from assms(3) have len: "1 < length (strings_Split sn (CHR ''.''))"
    by (simp add: st)
  have "createServiceHandler (Some f) =
      Return (Inr (strings_Split sn (CHR ''.'') ! 1,
        \<lparr>handler = Some f, msgType = StructT sn sb fs, streaming = False\<rparr>))"
    by (simp only: createServiceHandler_checked [OF ft'] os option.case index_def len
        if_True bind.simps)
  then have "RegisterHandler p (Some f) =
      (p\<lparr>handlers := (handlers p)(strings_Split sn (CHR ''.'') ! 1 \<mapsto>
           \<lparr>handler = Some f, msgType = StructT sn sb fs, streaming = False\<rparr>)\<rparr>, Return None)"
    by (simp add: RegisterHandler_def handlerInputCheck_eq i)
  moreover have "length (strings_Split sn (CHR ''.'')) = 2 \<Longrightarrow>
      strings_Split sn (CHR ''.'') ! 1 = last (strings_Split sn (CHR ''.''))"
    by (cases "strings_Split sn (CHR ''.'')" rule: rev_cases) (simp_all add: nth_append)
  ultimately show ?thesis by (simp add: st)
qed

text \<open>
  For every handler that has a dynamic type and a malformed signature,
  \<open>RegisterHandler\<close> and \<open>RegisterStreamingHandler\<close> return the diagnostic of the first
  offending position and leave the processor as it was.
\<close>

lemma malformed_signature_rejected:
  "(\<not> valid_unary_signature (TypeOf f) \<longrightarrow>
      (\<exists>m. unary_diagnostic (TypeOf f) = Some m
         \<and> RegisterHandler p (Some f) = (p, Return (Some (errors_New m)))))
   \<and> (\<not> valid_streaming_signature (TypeOf f) \<longrightarrow>
      (\<exists>m. streaming_diagnostic (TypeOf f) = Some m
         \<and> RegisterStreamingHandler p (Some f) = (p, Return (Some (errors_New m)))))"
  by (auto simp: valid_unary_iff valid_streaming_iff
      RegisterHandler_diagnosed RegisterStreamingHandler_diagnosed)

subsection \<open>Streams\<close>

lemma forwarding_transport:
  assumes "forwarding e vs s" "transport_step s = Return (Some s')"
  shows "forwarding e vs s'"
proof -
  from assms(2) obtain b bs where o: "buffer (outChan s) = b # bs"
    and s': "s' = s\<lparr>outChan := (outChan s)\<lparr>buffer := bs\<rparr>, received := received s @ [b]\<rparr>"
    by (auto simp: transport_step_def split: list.splits)
  from assms(1) show ?thesis
    unfolding forwarding_def s' using o by auto
qed

lemma forwarding_forwarder:
  assumes enc: "\<forall>v\<in>set vs. encode v = Inr (e v)"
    and inv: "forwarding e vs s" and step: "forwarder_step encode s = Return (Some s')"
  shows "forwarding e vs s'"
proof -
  from inv obtain n where n: "n \<le> length vs" "inChan s = drop n vs"
    "Select_recv (source s) = Return True"
    "received s @ buffer (outChan s) @ held (goroutine s) = map e (take n vs)"
    "capacity (outChan s) = 100"
    "length (buffer (outChan s)) \<le> 100"
    "goroutine s = Returned \<longrightarrow> inChan s = []"
    "closed (outChan s) \<longleftrightarrow> goroutine s = Returned"
    unfolding forwarding_def by blast
  show ?thesis
  proof (cases "goroutine s")
    case Selecting
    show ?thesis
    proof (cases "inChan s")
      case Nil
      with Selecting step n(3)
      have s': "s' = s\<lparr>outChan := (outChan s)\<lparr>closed := True\<rparr>, goroutine := Returned\<rparr>"
        by (simp add: forwarder_step_def)
      show ?thesis
        unfolding forwarding_def s' using n Nil Selecting
        by (intro exI [of _ n]) simp
    next
      case (Cons v rest)
      with n(2) have lt: "n < length vs" by (cases "n < length vs") simp_all
      from Cons n(2) lt have v: "v = vs ! n" and rest: "rest = drop (Suc n) vs"
        by (simp_all add: Cons_nth_drop_Suc [symmetric])
      from lt v have "v \<in> set vs" by simp
      with enc have ev: "encode v = Inr (e v)" by blast
      with Selecting Cons step n(3)
      have s': "s' = s\<lparr>inChan := rest, goroutine := Sending (e v)\<rparr>"
        by (simp add: forwarder_step_def)
      have "map e (take (Suc n) vs) = map e (take n vs) @ [e v]"
        using lt v by (simp add: take_Suc_conv_app_nth)
      then show ?thesis
        unfolding forwarding_def s' using n lt rest Selecting
        by (intro exI [of _ "Suc n"]) simp
    qed
  next
    case (Sending b)
    with step have s': "s' = s\<lparr>outChan := (outChan s)\<lparr>buffer := buffer (outChan s) @ [b]\<rparr>,
        goroutine := Selecting\<rparr>"
      and room: "length (buffer (outChan s)) < capacity (outChan s)"
      by (simp_all add: forwarder_step_def split: if_splits)
    show ?thesis
      unfolding forwarding_def s' using n Sending room
      by (intro exI [of _ n]) simp
  next
    case Returned
    with step show ?thesis by (simp add: forwarder_step_def)
  qed
qed

lemma forwarding_step:
  assumes "\<forall>v\<in>set vs. encode v = Inr (e v)" "forwarding e vs s"
    "actor_step encode a s = Return (Some s')"
  shows "forwarding e vs s'"
  using assms forwarding_transport forwarding_forwarder
  by (cases a) (auto simp: actor_step_def)

lemma forwarding_run:
  assumes "\<forall>v\<in>set vs. encode v = Inr (e v)"
  shows "forwarding e vs s \<Longrightarrow> run encode sched s = Return (Some s') \<Longrightarrow> forwarding e vs s'"
proof (induction sched arbitrary: s)
  case Nil
  then show ?case by simp
next
  case (Cons a sched)
  from Cons.prems(2) obtain t where t: "actor_step encode a s = Return (Some t)"
    and r: "run encode sched t = Return (Some s')"
    by (auto split: option.splits outcome.splits)
  from forwarding_step [OF assms Cons.prems(1) t] r Cons.IH show ?case by blast
qed

lemma forwarding_no_panic:
  assumes "forwarding e vs s"
  shows "actor_step encode a s \<noteq> Panic m"
proof (cases a)
  case Forwarder
  from assms have "Select_recv (source s) = Return True"
    unfolding forwarding_def by blast
  with Forwarder show ?thesis
    by (cases "goroutine s")
       (auto simp: actor_step_def forwarder_step_def split: list.splits sum.splits)
next
  case Transport
  then show ?thesis
    by (auto simp: actor_step_def transport_step_def split: list.splits)
qed

lemma remaining_step:
  assumes "actor_step encode a s = Return (Some s')"
  shows "remaining s' < remaining s"
proof (cases a)
  case Forwarder
  with assms have f: "forwarder_step encode s = Return (Some s')" by (simp add: actor_step_def)
  show ?thesis
  proof (cases "Select_recv (source s)")
    case (Panic m)
    with f show ?thesis
      by (cases "goroutine s")
         (auto simp: forwarder_step_def remaining_def split: if_splits)
  next
    case (Return ready)
    with f show ?thesis
      by (cases "goroutine s")
         (auto simp: forwarder_step_def remaining_def split: list.splits sum.splits if_splits)
  qed
next
  case Transport
  with assms have "transport_step s = Return (Some s')" by (simp add: actor_step_def)
  then show ?thesis
    by (auto simp: transport_step_def remaining_def split: list.splits)
qed

lemma remaining_run:
  "run encode sched s = Return (Some s') \<Longrightarrow> length sched + remaining s' \<le> remaining s"
proof (induction sched arbitrary: s)
  case Nil
  then show ?case by simp
next
  case (Cons a sched)
  from Cons.prems obtain t where t: "actor_step encode a s = Return (Some t)"
    and r: "run encode sched t = Return (Some s')"
    by (auto split: option.splits outcome.splits)
  from remaining_step [OF t] Cons.IH [OF r] show ?case by simp
qed

lemma forwarding_finished:
  assumes inv: "forwarding e vs s"
    and f: "forwarder_step encode s = Return None" and t: "transport_step s = Return None"
  shows "received s = map e vs \<and> closed (outChan s) \<and> goroutine s = Returned"
proof -
  from inv obtain n where n: "n \<le> length vs" "inChan s = drop n vs"
    "Select_recv (source s) = Return True"
    "received s @ buffer (outChan s) @ held (goroutine s) = map e (take n vs)"
    "capacity (outChan s) = 100"
    "length (buffer (outChan s)) \<le> 100"
    "goroutine s = Returned \<longrightarrow> inChan s = []"
    "closed (outChan s) \<longleftrightarrow> goroutine s = Returned"
    unfolding forwarding_def by blast
  from t have o: "buffer (outChan s) = []"
    by (simp add: transport_step_def split: list.splits)
  with f n(3,5) have g: "goroutine s = Returned"
    by (cases "goroutine s")
       (auto simp: forwarder_step_def split: list.splits sum.splits if_splits)
  from n(2,7) g have "length vs \<le> n" by simp
  with n(1) have "n = length vs" by simp
  with n(4,8) o g show ?thesis by simp
qed

lemma run_append:
  "run encode (xs @ ys) s =
     (case run encode xs s of
        Panic m \<Rightarrow> Panic m | Return None \<Rightarrow> Return None
      | Return (Some t) \<Rightarrow> run encode ys t)"
  by (induction xs arbitrary: s) (auto split: outcome.splits option.splits)

lemma run_completes:
  assumes enc: "\<forall>v\<in>set vs. encode v = Inr (e v)"
  shows "forwarding e vs s \<Longrightarrow>
    \<exists>sched s'. run encode sched s = Return (Some s')
      \<and> forwarder_step encode s' = Return None \<and> transport_step s' = Return None"
proof (induction "remaining s" arbitrary: s rule: less_induct)
  case less
  have np: "actor_step encode a s \<noteq> Panic m" for a m
    using forwarding_no_panic [OF less.prems] .
  show ?case
  proof (cases "forwarder_step encode s")
    case (Panic m)
    with np [of Forwarder m] show ?thesis by (simp add: actor_step_def)
  next
    case (Return r)
    show ?thesis
    proof (cases r)
      case (Some t)
      with Return have a: "actor_step encode Forwarder s = Return (Some t)"
        by (simp add: actor_step_def)
      from less.hyps [OF remaining_step [OF a] forwarding_step [OF enc less.prems a]]
      obtain sched s' where "run encode sched t = Return (Some s')"
        "forwarder_step encode s' = Return None" "transport_step s' = Return None" by blast
      with a have "run encode (Forwarder # sched) s = Return (Some s')" by simp
      with \<open>forwarder_step encode s' = Return None\<close> \<open>transport_step s' = Return None\<close>
      show ?thesis by blast
    next
      case None
      show ?thesis
      proof (cases "transport_step s")
        case (Panic m)
        with np [of Transport m] show ?thesis by (simp add: actor_step_def)
      next
        case tr: (Return r')
        show ?thesis
        proof (cases r')
          case (Some t)
          with tr have a: "actor_step encode Transport s = Return (Some t)"
            by (simp add: actor_step_def)
          from less.hyps [OF remaining_step [OF a] forwarding_step [OF enc less.prems a]]
          obtain sched s' where "run encode sched t = Return (Some s')"
            "forwarder_step encode s' = Return None" "transport_step s' = Return None" by blast
          with a have "run encode (Transport # sched) s = Return (Some s')" by simp
          with \<open>forwarder_step encode s' = Return None\<close> \<open>transport_step s' = Return None\<close>
          show ?thesis by blast
        next
          case n: None
          have "run encode [] s = Return (Some s)" by simp
          with Return None tr n show ?thesis by blast
        qed
      qed
    qed
  qed
qed

text \<open>
  A streaming dispatch whose handler returns no error starts the goroutine on the
  handler's first result and returns the tunnel with its new \<open>out\<close> channel.
\<close>

lemma streaming_dispatch:
  assumes "handlers p path = Some mh" and "streaming mh"
    and "decode (msgType mh) buf = Inr msg"
    and "callInterfaceFunc (handler mh) (msgType mh, msg) True = Return (reply, stop, None)"
  shows "ProcessClientRequest decode encode p path buf =
      ([protobuf_Decode (msgType mh) buf, call_handler (handler mh) msg, go_forward reply],
       Return (None, Some \<lparr>out = make_chan 100, close = stop\<rparr>, None))"
    and "started (ProcessClientRequest decode encode p path buf) vs =
      Some \<lparr>source = reply, inChan = vs, goroutine = Selecting, outChan = make_chan 100,
            received = []\<rparr>"
  using assms by (simp_all add: ProcessClientRequest_def Let_def started_def)

lemma forwarding_started:
  assumes "Select_recv reply = Return True"
  shows "forwarding e vs \<lparr>source = reply, inChan = vs, goroutine = Selecting,
      outChan = make_chan 100, received = []\<rparr>"
  unfolding forwarding_def using assms
  by (intro exI [of _ 0]) (simp add: make_chan_def)

text \<open>
  When the handler's channel can be received from, and the handler sends the values
  \<open>vs\<close> on it and then closes it, each of them encoding successfully, to \<open>e v\<close>: in every
  state \<open>s\<close> that the goroutine and the transport reach from the state in which the
  dispatch returned, in whatever order they step, what the transport has received,
  followed by the buffer of the out channel and the item in the goroutine's hand, is the
  encodings of the first \<open>n\<close> values in the order they were sent; the buffer holds at most
  100 items; the out channel is closed only when all the encodings are received or
  buffered; at most \<open>3 * length vs + 1\<close> steps were taken; when neither actor can step,
  the transport has received exactly the encodings of \<open>vs\<close> and the out channel is
  closed, by the goroutine, which has returned; and the actors can always go on to such
  a state.
\<close>

lemma stream_forwarded_in_order:
  assumes route: "handlers p path = Some mh" "streaming mh"
    "decode (msgType mh) buf = Inr msg"
    "callInterfaceFunc (handler mh) (msgType mh, msg) True = Return (reply, stop, None)"
    and recv: "Select_recv reply = Return True"
    and enc: "\<forall>v\<in>set vs. encode v = Inr (e v)"
    and start: "started (ProcessClientRequest decode encode p path buf) vs = Some s0"
    and run: "run encode sched s0 = Return (Some s)"
  shows "snd (ProcessClientRequest decode encode p path buf) =
        Return (None, Some \<lparr>out = make_chan 100, close = stop\<rparr>, None)
       \<and> (\<exists>n \<le> length vs.
            received s @ buffer (outChan s) @ held (goroutine s) = map e (take n vs))
       \<and> length (buffer (outChan s)) \<le> 100
       \<and> (closed (outChan s) \<longrightarrow> received s @ buffer (outChan s) = map e vs)
       \<and> length sched \<le> 3 * length vs + 1
       \<and> (forwarder_step encode s = Return None \<and> transport_step s = Return None \<longrightarrow>
            received s = map e vs \<and> closed (outChan s) \<and> goroutine s = Returned)
       \<and> (\<exists>more s'. run encode more s = Return (Some s')
            \<and> forwarder_step encode s' = Return None \<and> transport_step s' = Return None)"
proof -
  from streaming_dispatch(2) [of p path mh decode buf msg reply stop encode vs] route start
  have s0: "s0 = \<lparr>source = reply, inChan = vs, goroutine = Selecting, outChan = make_chan 100,
      received = []\<rparr>" by simp
  have inv0: "forwarding e vs s0" unfolding s0 using forwarding_started [OF recv] .
  have inv: "forwarding e vs s" using forwarding_run [OF enc inv0 run] .
  then obtain n where n: "n \<le> length vs" "inChan s = drop n vs"
    "Select_recv (source s) = Return True"
    "received s @ buffer (outChan s) @ held (goroutine s) = map e (take n vs)"
    "capacity (outChan s) = 100"
    "length (buffer (outChan s)) \<le> 100"
    "goroutine s = Returned \<longrightarrow> inChan s = []"
    "closed (outChan s) \<longleftrightarrow> goroutine s = Returned"
    unfolding forwarding_def by blast
  have 0: "snd (ProcessClientRequest decode encode p path buf) =
        Return (None, Some \<lparr>out = make_chan 100, close = stop\<rparr>, None)"
    using streaming_dispatch(1) [of p path mh decode buf msg reply stop encode] route by simp
  have 1: "\<exists>n \<le> length vs.
      received s @ buffer (outChan s) @ held (goroutine s) = map e (take n vs)"
    using n(1,4) by blast
  have 2: "closed (outChan s) \<longrightarrow> received s @ buffer (outChan s) = map e vs"
  proof
    assume "closed (outChan s)"
    with n(8) have g: "goroutine s = Returned" by simp
    with n(2,7) have "length vs \<le> n" by simp
    with n(1) have "n = length vs" by simp
    with n(4) g show "received s @ buffer (outChan s) = map e vs" by simp
  qed
  have 3: "length sched \<le> 3 * length vs + 1"
    using remaining_run [OF run] by (simp add: remaining_def s0 make_chan_def)
  from 0 1 2 3 n(6) forwarding_finished [OF inv] run_completes [OF enc inv]
  show ?thesis by blast
qed

subsection \<open>REST\<close>

text \<open>
  A handler with an integer field registered for GET at version 3: the path
  \<open>/v3/ns/res/42\<close> gives the payload \<open>{"Id": 42}\<close>.
\<close>

lemma rest_one_digit_version_accepted:
  "(let res = StructT ''main.res'' False [(''Id'', ScalarT SInt ''int'' False)];
        f = \<lparr>TypeOf = FuncT ''func(*main.res) (*main.res, error)'' False
                 [PtrT ''*main.res'' False res]
                 [PtrT ''*main.res'' False res, InterfaceT ''error'' True],
             Call = (\<lambda>m::nat. Return [VPtr m, VNil])\<rparr>;
        c = \<lparr>h_k = intGET, h_fieldNameGET = ''Id'', h_namespace = ''ns'', h_resource = ''res'',
             h_sh = \<lparr>handler = Some f, msgType = res, streaming = False\<rparr>, h_f = Some f\<rparr>;
        r = \<lparr>Method = ''GET'', EscapedPath = ''/v3/ns/res/42'', Content_Type = [],
             Body = Inr []\<rparr>
    in RegisterRESTHandler NewServiceProcessor (Some f) 3 ''ns'' ''GET'' =
         (NewServiceProcessor\<lparr>mux := [(''/v3/ns/res/'', c)]\<rparr>, Return None)
       \<and> h_msgBuf c r = Some (Inr (''{'' @ [CHR 0x22] @ ''Id'' @ [CHR 0x22] @ '': 42}'')))"
proof -
  have d: "int_decimal 3 = ''3''"
    by (simp add: int_decimal_def nat_decimal.simps [of 3])
  show ?thesis
    by (simp add: Let_def RegisterRESTHandler_def createServiceHandler_def index_def
        prepareHandlerGET_def HandleFunc_def NewServiceProcessor_def d
        is_digit_def h_msgBuf_def regexp_MatchString_def path_Split_def
        del: nat_decimal.simps)
qed

section \<open>Properties\<close>

subsection \<open>Registration\<close>

text \<open>
  C1, at two valid unary handler signatures where the code departs from it. For the
  argument \<open>*struct{}\<close>, whose type name has no separator, \<open>RegisterHandler\<close> does not
  return nil: it panics on segment 1 of the split name. For the argument
  \<open>*struct { A a.X; B b.Y }\<close> it returns nil and the route key is \<open>X; B b\<close>, segment 1,
  where the final segment of the split name is \<open>Y }\<close>.
\<close>

theorem RegisterHandler_route_key_departs:
  "(let none = StructT ''struct {}'' False [];
        f0 = \<lparr>TypeOf = FuncT ''func(*struct {}) (*struct {}, error)'' False
                  [PtrT ''*struct {}'' False none]
                  [PtrT ''*struct {}'' False none, InterfaceT ''error'' True],
              Call = (\<lambda>m::nat. Return [VNil, VNil])\<rparr>;
        two = StructT ''struct { A a.X; B b.Y }'' False
                [(''A'', StructT ''a.X'' False []), (''B'', StructT ''b.Y'' False [])];
        f2 = \<lparr>TypeOf = FuncT ''func(*struct { A a.X; B b.Y }) (*struct {}, error)'' False
                  [PtrT ''*struct { A a.X; B b.Y }'' False two]
                  [PtrT ''*struct {}'' False none, InterfaceT ''error'' True],
              Call = (\<lambda>m::nat. Return [VNil, VNil])\<rparr>
    in valid_unary_signature (TypeOf f0)
       \<and> snd (RegisterHandler NewServiceProcessor (Some f0)) \<noteq> Return None
       \<and> valid_unary_signature (TypeOf f2)
       \<and> RegisterHandler NewServiceProcessor (Some f2) =
           (NewServiceProcessor\<lparr>handlers := (handlers NewServiceProcessor)(''X; B b'' \<mapsto>
              \<lparr>handler = Some f2, msgType = two, streaming = False\<rparr>)\<rparr>, Return None)
       \<and> last (strings_Split (String_of two) (CHR ''.'')) = ''Y }'')"
  by (simp add: Let_def RegisterHandler_def handlerInputCheck_def createServiceHandler_def
      index_def)

text \<open>
  C5, at the input where the code departs from it: the nil interface is not a function,
  and the input check, \<open>RegisterHandler\<close> and \<open>RegisterStreamingHandler\<close> panic on it, on
  the first method call on the nil \<open>Type\<close>, where the claim asks for a non-nil error;
  the processor stays as it was. (For every handler that has a dynamic type the claim
  holds: \<open>malformed_signature_rejected\<close>.)
\<close>

theorem nil_handler_panics:
  "handlerInputCheck None = Panic ''invalid memory address or nil pointer dereference''
   \<and> RegisterHandler p None = (p, Panic ''invalid memory address or nil pointer dereference'')
   \<and> RegisterStreamingHandler p None =
       (p, Panic ''invalid memory address or nil pointer dereference'')"
  by (simp add: handlerInputCheck_def RegisterHandler_def RegisterStreamingHandler_def)

text \<open>
  C10: the signature check accepts \<open>func(*struct{}) (*struct{}, error)\<close> and
  \<open>func(*struct{}) (chan interface{}, chan bool, error)\<close>, whose argument points to a
  struct type with no package qualifier, and \<open>RegisterHandler\<close> and
  \<open>RegisterStreamingHandler\<close> then panic on segment 1 of the split name, for every
  processor \<open>p\<close>, which stays as it was.
\<close>

theorem anonymous_struct_panics:
  "(let anon = StructT ''struct {}'' False [];
        f1 = \<lparr>TypeOf = FuncT ''func(*struct {}) (*struct {}, error)'' False
                 [PtrT ''*struct {}'' False anon]
                 [PtrT ''*struct {}'' False anon, InterfaceT ''error'' True],
              Call = (\<lambda>m. Return [VNil, VNil])\<rparr>;
        f2 = \<lparr>TypeOf = FuncT ''func(*struct {}) (chan interface {}, chan bool, error)'' False
                 [PtrT ''*struct {}'' False anon]
                 [ChanT ''chan interface {}'' False BothDir (InterfaceT ''interface {}'' False),
                  ChanT ''chan bool'' False BothDir (ScalarT SBool ''bool'' False),
                  InterfaceT ''error'' True],
              Call = (\<lambda>m. Return [VNil, VNil, VNil])\<rparr>
    in handlerInputCheck (Some f1) = Return None
       \<and> strings_Split (String_of anon) (CHR ''.'') = [''struct {}'']
       \<and> RegisterHandler p (Some f1) = (p, Panic ''index out of range'')
       \<and> handlerInputCheck (Some f2) = Return None
       \<and> RegisterStreamingHandler p (Some f2) = (p, Panic ''index out of range''))"
  by (simp add: Let_def RegisterHandler_def RegisterStreamingHandler_def
      handlerInputCheck_def createServiceHandler_def index_def)

text \<open>
  C7, at the input where the code departs from it: registering
  \<open>func(*struct { A int; B int }) (*network.Body, error)\<close> for GET at version 3. The
  input struct has two fields, so the claim asks for a non-nil error; the call panics in
  \<open>createServiceHandler\<close>, on segment 1 of the split name, before the fields are looked
  at. (For an input struct that \<open>createServiceHandler\<close> accepts the error is returned:
  \<open>RegisterRESTHandler_GET_fields\<close>; the method and the version are refused for every
  handler: \<open>RegisterRESTHandler_invalid_method\<close>, \<open>RegisterRESTHandler_early_version\<close>.)
\<close>

theorem RegisterRESTHandler_unqualified_struct:
  "(let two = StructT ''struct { A int; B int }'' False
                [(''A'', ScalarT SInt ''int'' False), (''B'', ScalarT SInt ''int'' False)];
        body = StructT ''network.Body'' False [];
        f = \<lparr>TypeOf = FuncT ''func(*struct { A int; B int }) (*network.Body, error)'' False
                 [PtrT ''*struct { A int; B int }'' False two]
                 [PtrT ''*network.Body'' False body, InterfaceT ''error'' True],
             Call = (\<lambda>m. Return [VNil, VNil])\<rparr>
    in NumField two = Return 2
       \<and> RegisterRESTHandler p (Some f) 3 ''ns'' ''GET'' = (p, Panic ''index out of range''))"
  by (simp add: Let_def RegisterRESTHandler_def createServiceHandler_def index_def)

text \<open>
  C8: no operation of the processor removes a route key from the handlers map, and a
  dispatch leaves the map as it is.
\<close>

theorem registry_never_shrinks:
  "(key \<in> dom (handlers p) \<longrightarrow> key \<in> dom (handlers (after decode encode p operation)))
   \<and> handlers (after decode encode p (Op_ProcessClientRequest path buf)) = handlers p"
proof -
  have "dom (handlers p) \<subseteq> dom (handlers (after decode encode p operation))"
    by (cases operation)
       (simp_all add: RegisterHandler_dom RegisterStreamingHandler_dom RegisterHandlers_dom
         RegisterStreamingHandlers_dom RegisterRESTHandler_handlers)
  then show ?thesis by auto
qed

text \<open>
  Witness for C8: with \<open>Body\<close> registered, registering a streaming handler for
  \<open>main.Ping\<close> gives the keys \<open>Body\<close> and \<open>Ping\<close>, and a dispatch changes nothing.
\<close>

theorem registry_never_shrinks_witness:
  "(let body = StructT ''network.Body'' False [];
        ping = StructT ''main.Ping'' False [];
        f = \<lparr>TypeOf = FuncT ''func(*network.Body) (*network.Body, error)'' False
                 [PtrT ''*network.Body'' False body]
                 [PtrT ''*network.Body'' False body, InterfaceT ''error'' True],
             Call = (\<lambda>m::nat. Return [VPtr m, VNil])\<rparr>;
        g = \<lparr>TypeOf = FuncT ''func(*main.Ping) (chan interface {}, chan bool, error)'' False
                 [PtrT ''*main.Ping'' False ping]
                 [ChanT ''chan interface {}'' False BothDir (InterfaceT ''interface {}'' False),
                  ChanT ''chan bool'' False BothDir (ScalarT SBool ''bool'' False),
                  InterfaceT ''error'' True],
             Call = (\<lambda>m::nat. Return [VChan (ChanT ''chan interface {}'' False BothDir
                                (InterfaceT ''interface {}'' False)) (Some 0),
                             VChan chan_bool (Some 1), VNil])\<rparr>;
        p = fst (RegisterHandler NewServiceProcessor (Some f));
        decode = (\<lambda>t b. Inr 7);
        encode = (\<lambda>v. Inr (Some ''reply''))
    in ''Body'' \<in> dom (handlers p)
       \<and> dom (handlers (after decode encode p (Op_RegisterStreamingHandler (Some g))))
           = {''Body'', ''Ping''}
       \<and> handlers (after decode encode p (Op_ProcessClientRequest ''Body'' ''payload''))
           = handlers p)"
proof -
  define body where "body = StructT ''network.Body'' False []"
  define ping where "ping = StructT ''main.Ping'' False []"
  define f :: "nat govalue" where
    "f = \<lparr>TypeOf = FuncT ''func(*network.Body) (*network.Body, error)'' False
                 [PtrT ''*network.Body'' False body]
                 [PtrT ''*network.Body'' False body, InterfaceT ''error'' True],
             Call = (\<lambda>m::nat. Return [VPtr m, VNil])\<rparr>"
  define g :: "nat govalue" where
    "g = \<lparr>TypeOf = FuncT ''func(*main.Ping) (chan interface {}, chan bool, error)'' False
                 [PtrT ''*main.Ping'' False ping]
                 [ChanT ''chan interface {}'' False BothDir (InterfaceT ''interface {}'' False),
                  ChanT ''chan bool'' False BothDir (ScalarT SBool ''bool'' False),
                  InterfaceT ''error'' True],
             Call = (\<lambda>m::nat. Return [VChan (ChanT ''chan interface {}'' False BothDir
                                (InterfaceT ''interface {}'' False)) (Some 0),
                             VChan chan_bool (Some 1), VNil])\<rparr>"
  define p where "p = fst (RegisterHandler NewServiceProcessor (Some f))"
  define decode :: "rtype \<Rightarrow> string \<Rightarrow> goerror + nat" where "decode = (\<lambda>t b. Inr 7)"
  define encode :: "nat gvalue \<Rightarrow> goerror + string option"
    where "encode = (\<lambda>v. Inr (Some ''reply''))"
  have hp: "handlers p = [''Body'' \<mapsto> \<lparr>handler = Some f, msgType = body, streaming = False\<rparr>]"
    by (simp add: p_def f_def body_def RegisterHandler_def handlerInputCheck_def
        createServiceHandler_def index_def NewServiceProcessor_def)
  have b: "''Body'' \<in> dom (handlers p)" by (simp add: hp)
  have s: "handlers (fst (RegisterStreamingHandler p (Some g))) =
      (handlers p)(''Ping'' \<mapsto> \<lparr>handler = Some g, msgType = ping, streaming = True\<rparr>)"
    by (simp add: g_def ping_def RegisterStreamingHandler_def handlerInputCheck_def index_def)
  from registry_never_shrinks [of "''Body''" p decode encode "Op_RegisterStreamingHandler (Some g)"
      "''Body''" "''payload''"] b
  have "''Body'' \<in> dom (handlers p)
       \<and> ''Body'' \<in> dom (handlers (after decode encode p (Op_RegisterStreamingHandler (Some g))))
       \<and> handlers (after decode encode p (Op_ProcessClientRequest ''Body'' ''payload''))
           = handlers p"
    by simp
  moreover have "dom (handlers (after decode encode p (Op_RegisterStreamingHandler (Some g))))
      = {''Body'', ''Ping''}"
    using s hp by auto
  ultimately show ?thesis
    unfolding Let_def body_def [symmetric] ping_def [symmetric] f_def [symmetric]
      g_def [symmetric] p_def [symmetric] decode_def [symmetric] encode_def [symmetric]
    by simp
qed

subsection \<open>Dispatch\<close>

text \<open>
  C2, as the code has it: when a dispatch returns a nil error, the route is registered,
  the payload was decoded and the handler returned a reply with a nil error; for a
  streaming route the reply bytes are nil and the tunnel is the new one, with the
  handler's close channel; for a unary route the tunnel is nil and the reply bytes are
  the bytes that \<open>protobuf.Encode\<close> returned for that reply, nil when those are nil.
\<close>

theorem success_reply_or_tunnel:
  assumes "snd (ProcessClientRequest decode encode p path buf) = Return (bytes, tun, None)"
  shows "\<exists>mh msg reply stop.
      handlers p path = Some mh \<and> decode (msgType mh) buf = Inr msg
    \<and> callInterfaceFunc (handler mh) (msgType mh, msg) (streaming mh)
        = Return (reply, stop, None)
    \<and> (if streaming mh
        then bytes = None \<and> tun = Some \<lparr>out = make_chan 100, close = stop\<rparr>
        else tun = None \<and> encode reply = Inr bytes)"
proof (cases "handlers p path")
  case None
  with assms show ?thesis by (simp add: ProcessClientRequest_def Let_def)
next
  case (Some mh)
  show ?thesis
  proof (cases "decode (msgType mh) buf")
    case (Inl err)
    with Some assms show ?thesis by (simp add: ProcessClientRequest_def)
  next
    case (Inr msg)
    show ?thesis
    proof (cases "callInterfaceFunc (handler mh) (msgType mh, msg) (streaming mh)")
      case (Panic m)
      with Some Inr assms show ?thesis by (simp add: ProcessClientRequest_def Let_def)
    next
      case (Return r)
      obtain reply stop err where r: "r = (reply, stop, err)" by (cases r)
      show ?thesis
      proof (cases err)
        case (Some e)
        with \<open>handlers p path = Some mh\<close> Inr Return r assms show ?thesis
          by (simp add: ProcessClientRequest_def Let_def)
      next
        case None
        with \<open>handlers p path = Some mh\<close> Inr Return r assms show ?thesis
          by (auto simp: ProcessClientRequest_def Let_def split: if_splits sum.splits)
      qed
    qed
  qed
qed

text \<open>
  Witness for C2: a unary route whose reply encodes to the bytes \<open>reply\<close>.
\<close>

theorem success_reply_or_tunnel_witness:
  "(let body = StructT ''network.Body'' False [];
        f = \<lparr>TypeOf = FuncT ''func(*network.Body) (*network.Body, error)'' False
                 [PtrT ''*network.Body'' False body]
                 [PtrT ''*network.Body'' False body, InterfaceT ''error'' True],
             Call = (\<lambda>m::nat. Return [VPtr m, VNil])\<rparr>;
        p = fst (RegisterHandler NewServiceProcessor (Some f));
        decode = (\<lambda>t b. Inr 7);
        encode = (\<lambda>v. Inr (Some ''reply''))
    in snd (ProcessClientRequest decode encode p ''Body'' ''payload'')
         = Return (Some ''reply'', None, None)
       \<and> handlers p ''Body'' = Some \<lparr>handler = Some f, msgType = body, streaming = False\<rparr>
       \<and> callInterfaceFunc (Some f) (body, 7) False = Return (VPtr 7, None, None)
       \<and> encode (VPtr 7) = Inr (Some ''reply''))"
proof -
  define body where "body = StructT ''network.Body'' False []"
  define f :: "nat govalue" where
    "f = \<lparr>TypeOf = FuncT ''func(*network.Body) (*network.Body, error)'' False
                 [PtrT ''*network.Body'' False body]
                 [PtrT ''*network.Body'' False body, InterfaceT ''error'' True],
             Call = (\<lambda>m::nat. Return [VPtr m, VNil])\<rparr>"
  define p where "p = fst (RegisterHandler NewServiceProcessor (Some f))"
  define mh where "mh = \<lparr>handler = Some f, msgType = body, streaming = False\<rparr>"
  have h: "handlers p ''Body'' = Some mh"
    by (simp add: p_def mh_def f_def body_def RegisterHandler_def handlerInputCheck_def
        createServiceHandler_def index_def)
  have c: "callInterfaceFunc (handler mh) (msgType mh, 7) False = Return (VPtr 7, None, None)"
    by (simp add: mh_def f_def body_def callInterfaceFunc_def reflect_Call_def index_def)
  have r: "snd (ProcessClientRequest (\<lambda>t b. Inr 7) (\<lambda>v. Inr (Some ''reply'')) p ''Body''
      ''payload'') = Return (Some ''reply'', None, None)"
    using c by (simp add: ProcessClientRequest_def h Let_def mh_def)
  from success_reply_or_tunnel [OF r] h c r
  show ?thesis
    unfolding Let_def body_def [symmetric] f_def [symmetric] p_def [symmetric]
    by (simp add: mh_def)
qed

text \<open>
  Counterexample to C2 as stated: the unary handler
  \<open>func(*network.Body) (interface{}, error)\<close> returns the nil interface with a nil
  error, the encoder returns nil bytes for it with no error, and the dispatch returns
  nil reply bytes, a nil tunnel and a nil error.
\<close>

theorem success_with_nil_reply_counterexample:
  "(let body = StructT ''network.Body'' False [];
        f = \<lparr>TypeOf = FuncT ''func(*network.Body) (interface {}, error)'' False
                 [PtrT ''*network.Body'' False body]
                 [InterfaceT ''interface {}'' False, InterfaceT ''error'' True],
             Call = (\<lambda>m::nat. Return [VNil, VNil])\<rparr>;
        p = fst (RegisterHandler NewServiceProcessor (Some f));
        decode = (\<lambda>t b. Inr 7);
        encode = (\<lambda>v. case v of VNil \<Rightarrow> Inr None | _ \<Rightarrow> Inr (Some ''reply''))
    in valid_unary_signature (TypeOf f)
       \<and> handlers p ''Body'' = Some \<lparr>handler = Some f, msgType = body, streaming = False\<rparr>
       \<and> reflect_Call f body 7 = Return [VNil, VNil]
       \<and> snd (ProcessClientRequest decode encode p ''Body'' ''payload'')
           = Return (None, None, None))"
  by (simp add: Let_def RegisterHandler_def handlerInputCheck_def createServiceHandler_def
      index_def ProcessClientRequest_def callInterfaceFunc_def reflect_Call_def)

text \<open>
  C4: for a route key that is not in the handlers map, and every payload, the dispatch
  returns nil reply bytes, a nil tunnel and the error that names the route; its only
  effect is to log that error: nothing is decoded and no handler is called.
\<close>

theorem unregistered_route_fails:
  assumes "handlers p path = None"
  shows "ProcessClientRequest decode encode p path buf =
    ([log_Error (errors_New (''The requested message hasn't been registered: '' @ path))],
     Return (None, None,
       Some (errors_New (''The requested message hasn't been registered: '' @ path))))"
  using assms by (simp add: ProcessClientRequest_def Let_def)

text \<open>
  Witness for C4: the route \<open>Ping\<close> on the new processor.
\<close>

theorem unregistered_route_fails_witness:
  "handlers (NewServiceProcessor :: nat ServiceProcessor) ''Ping'' = None
   \<and> ProcessClientRequest (\<lambda>t b. Inr 0) (\<lambda>v. Inr (Some ''reply''))
        (NewServiceProcessor :: nat ServiceProcessor) ''Ping'' ''payload'' =
      ([log_Error (errors_New ''The requested message hasn't been registered: Ping'')],
       Return (None, None,
         Some (errors_New ''The requested message hasn't been registered: Ping'')))"
proof -
  have n: "handlers (NewServiceProcessor :: nat ServiceProcessor) ''Ping'' = None"
    by (simp add: NewServiceProcessor_def)
  from unregistered_route_fails [OF n, of "\<lambda>t b. Inr 0" "\<lambda>v. Inr (Some ''reply'')" "''payload''"] n
  show ?thesis by simp
qed

text \<open>
  C9: on a unary route whose handler returns a reply with a nil error, when encoding the
  reply fails, the dispatch returns the error with the empty message; the encoder's
  error is logged and not returned.
\<close>

theorem unary_encode_failure:
  assumes "handlers p path = Some mh" and "\<not> streaming mh"
    and "decode (msgType mh) buf = Inr msg"
    and "callInterfaceFunc (handler mh) (msgType mh, msg) False = Return (reply, c, None)"
    and "encode reply = Inl err"
  shows "ProcessClientRequest decode encode p path buf =
      ([protobuf_Decode (msgType mh) buf, call_handler (handler mh) msg,
        protobuf_Encode reply, log_Error err],
       Return (None, None, Some (errors_New [])))
    \<and> Error (errors_New []) = []"
  using assms by (simp add: ProcessClientRequest_def Let_def)

text \<open>
  Witness for C9: the route \<open>Body\<close> with an encoder that fails.
\<close>

theorem unary_encode_failure_witness:
  "(let body = StructT ''network.Body'' False [];
        f = \<lparr>TypeOf = FuncT ''func(*network.Body) (*network.Body, error)'' False
                 [PtrT ''*network.Body'' False body]
                 [PtrT ''*network.Body'' False body, InterfaceT ''error'' True],
             Call = (\<lambda>m::nat. Return [VPtr m, VNil])\<rparr>;
        p = fst (RegisterHandler NewServiceProcessor (Some f));
        decode = (\<lambda>t b. Inr 7);
        encode = (\<lambda>v. Inl (errors_New ''protobuf: cannot encode''))
    in handlers p ''Body'' = Some \<lparr>handler = Some f, msgType = body, streaming = False\<rparr>
       \<and> callInterfaceFunc (Some f) (body, 7) False = Return (VPtr 7, None, None)
       \<and> ProcessClientRequest decode encode p ''Body'' ''payload'' =
           ([protobuf_Decode body ''payload'', call_handler (Some f) 7, protobuf_Encode (VPtr 7),
             log_Error (errors_New ''protobuf: cannot encode'')],
            Return (None, None, Some (errors_New []))))"
proof -
  define body where "body = StructT ''network.Body'' False []"
  define f :: "nat govalue" where
    "f = \<lparr>TypeOf = FuncT ''func(*network.Body) (*network.Body, error)'' False
                 [PtrT ''*network.Body'' False body]
                 [PtrT ''*network.Body'' False body, InterfaceT ''error'' True],
             Call = (\<lambda>m::nat. Return [VPtr m, VNil])\<rparr>"
  define p where "p = fst (RegisterHandler NewServiceProcessor (Some f))"
  define mh where "mh = \<lparr>handler = Some f, msgType = body, streaming = False\<rparr>"
  have h: "handlers p ''Body'' = Some mh"
    by (simp add: p_def mh_def f_def body_def RegisterHandler_def handlerInputCheck_def
        createServiceHandler_def index_def)
  have s: "\<not> streaming mh" by (simp add: mh_def)
  have d: "(\<lambda>t b. Inr 7) (msgType mh) ''payload'' = (Inr 7 :: goerror + nat)" by simp
  have c: "callInterfaceFunc (handler mh) (msgType mh, 7) False = Return (VPtr 7, None, None)"
    by (simp add: mh_def f_def callInterfaceFunc_def reflect_Call_def index_def)
  have e: "(\<lambda>v. Inl (errors_New ''protobuf: cannot encode'')) (VPtr (7::nat))
      = (Inl (errors_New ''protobuf: cannot encode'') :: goerror + string option)" by simp
  from unary_encode_failure [OF h s d c e] h c
  show ?thesis
    unfolding Let_def body_def [symmetric] f_def [symmetric] p_def [symmetric]
    by (simp add: mh_def)
qed

subsection \<open>Streaming\<close>

text \<open>
  C3, at the input where the code departs from it: the streaming handler
  \<open>func(*main.Ping) (chan<- interface{}, chan bool, error)\<close>, which sends nothing on its
  channel and closes it. \<open>RegisterStreamingHandler\<close> accepts it, the dispatch returns the
  tunnel and starts the goroutine, and the goroutine panics in \<open>reflect.Select\<close>, on the
  send-only channel, where the claim asks for the out channel to be closed; the out
  channel stays open. (For a channel that can be received from the claim holds:
  \<open>stream_forwarded_in_order\<close>.)
\<close>

theorem send_only_channel_panics:
  "(let ping = StructT ''main.Ping'' False [];
        items = ChanT ''chan<- interface {}'' False SendDir (InterfaceT ''interface {}'' False);
        f = \<lparr>TypeOf = FuncT ''func(*main.Ping) (chan<- interface {}, chan bool, error)'' False
                 [PtrT ''*main.Ping'' False ping]
                 [items, chan_bool, InterfaceT ''error'' True],
             Call = (\<lambda>m::nat. Return [VChan items (Some 0), VChan chan_bool (Some 1), VNil])\<rparr>;
        decode = (\<lambda>t b. Inr 7);
        encode = (\<lambda>v. Inr (Some ''item''));
        p = fst (RegisterStreamingHandler NewServiceProcessor (Some f));
        dispatch = ProcessClientRequest decode encode p ''Ping'' ''payload'';
        s0 = \<lparr>source = VChan items (Some 0), inChan = [], goroutine = Selecting,
              outChan = make_chan 100, received = []\<rparr>
    in snd (RegisterStreamingHandler NewServiceProcessor (Some f)) = Return None
       \<and> handlers p ''Ping'' = Some \<lparr>handler = Some f, msgType = ping, streaming = True\<rparr>
       \<and> dispatch =
           ([protobuf_Decode ping ''payload'', call_handler (Some f) 7,
             go_forward (VChan items (Some 0))],
            Return (None, Some \<lparr>out = make_chan 100, close = Some 1\<rparr>, None))
       \<and> started dispatch [] = Some s0
       \<and> forwarder_step encode s0 =
           Panic ''reflect.Select: RecvDir case using send-only channel''
       \<and> run encode [Forwarder] s0 =
           Panic ''reflect.Select: RecvDir case using send-only channel''
       \<and> closed (outChan s0) = False)"
  by (simp add: Let_def RegisterStreamingHandler_def handlerInputCheck_def index_def chan_bool_def
      ProcessClientRequest_def callInterfaceFunc_def reflect_Call_def started_def
      forwarder_step_def actor_step_def make_chan_def NewServiceProcessor_def)

subsection \<open>REST\<close>

text \<open>
  C6, at the input where the code departs from it: a handler with an integer field
  registered for GET at version 10 is served at \<open>/v10/ns/res/\<close>; the path
  \<open>/v10/ns/res/42\<close> is under that pattern and matches the pattern of the claim, with
  its one or more version digits, and \<open>h\<close> answers it with status 404, whatever the JSON
  library does: its own pattern takes one version digit.
\<close>

theorem rest_two_digit_version_rejected:
  "(let res = StructT ''main.res'' False [(''Id'', ScalarT SInt ''int'' False)];
        f = \<lparr>TypeOf = FuncT ''func(*main.res) (*main.res, error)'' False
                 [PtrT ''*main.res'' False res]
                 [PtrT ''*main.res'' False res, InterfaceT ''error'' True],
             Call = (\<lambda>m::nat. Return [VPtr m, VNil])\<rparr>;
        c = \<lparr>h_k = intGET, h_fieldNameGET = ''Id'', h_namespace = ''ns'', h_resource = ''res'',
             h_sh = \<lparr>handler = Some f, msgType = res, streaming = False\<rparr>, h_f = Some f\<rparr>;
        r = \<lparr>Method = ''GET'', EscapedPath = ''/v10/ns/res/42'', Content_Type = [],
             Body = Inr []\<rparr>
    in RegisterRESTHandler NewServiceProcessor (Some f) 10 ''ns'' ''GET'' =
         (NewServiceProcessor\<lparr>mux := [(''/v10/ns/res/'', c)]\<rparr>, Return None)
       \<and> trim_prefix ''/v10/ns/res/'' (EscapedPath r) = Some ''42''
       \<and> spec_int_path ''ns'' ''res'' (EscapedPath r)
       \<and> h json_Unmarshal json_Marshal c r = Some (Return (http_Error ''invalid path'' 404)))"
proof -
  have d: "int_decimal 10 = ''10''"
    by (simp add: int_decimal_def nat_decimal.simps [of 10] nat_decimal.simps [of 1])
  show ?thesis
    by (simp add: Let_def RegisterRESTHandler_def createServiceHandler_def index_def
        prepareHandlerGET_def HandleFunc_def NewServiceProcessor_def d
        spec_int_path_def is_digit_def h_def h_msgBuf_def regexp_MatchString_def
        del: nat_decimal.simps)
qed

end
